theory Spec2Isabelle
  imports Complex_Main "HOL-Library.AList"
begin

section \<open>Values, errors and tables\<close>

text \<open>
  The repository is Python over pandas. A \<^verbatim>\<open>datetime.date\<close> is a record of its three
  integer attributes; Python's unbounded integers are \<open>int\<close>; a float is modelled by the
  rational number it stands for, so arithmetic on measures is exact and \<^verbatim>\<open>round(x, 2)\<close>
  is rounding to two decimals, ties to even.
\<close>

record date =
  year :: int
  month :: int
  day :: int

text \<open>
  A cell of a DataFrame or a dynamically typed Python value. \<open>VTimestamp d s\<close> is a
  pandas Timestamp: the calendar day and the seconds since midnight.
\<close>

datatype pyval =
    VInt int
  | VNum rat
  | VStr string
  | VBool bool
  | VDate date
  | VTimestamp date nat

datatype error =
    KeyError string
  | ValueError string
  | IndexError
  | TypeError
  | AttributeError
  | AssertionError string
  | OutOfBoundsDatetime

text \<open>
  A DataFrame seen through its columns: the column labels in order, each with its cells.
  \<^verbatim>\<open>df[c]\<close> is \<open>map_of df c\<close> (KeyError when absent) and the assignment
  \<^verbatim>\<open>df[c] = cells\<close> is \<open>AList.update c cells df\<close>: an existing column is
  replaced where it stands, a new one is appended.
\<close>

type_synonym 'v dataframe = "(string \<times> 'v list) list"

definition get_column :: "'v dataframe \<Rightarrow> string \<Rightarrow> error + 'v list" where
  "get_column df c = (case map_of df c of None \<Rightarrow> Inl (KeyError c) | Some cells \<Rightarrow> Inr cells)"

definition set_column :: "'v dataframe \<Rightarrow> string \<Rightarrow> 'v list \<Rightarrow> 'v dataframe" where
  "set_column df c cells = AList.update c cells df"

definition columns :: "'v dataframe \<Rightarrow> string list" where
  "columns df = map fst df"

section \<open>Strings\<close>

text \<open>Python's \<^verbatim>\<open>str(n)\<close> for an integer: decimal digits, a minus sign when negative.\<close>

definition digit_char :: "nat \<Rightarrow> char" where
  "digit_char n = ''0123456789'' ! n"

fun str_nat :: "nat \<Rightarrow> string" where
  "str_nat n = (if n < 10 then [digit_char n] else str_nat (n div 10) @ [digit_char (n mod 10)])"

declare str_nat.simps [simp del]

definition str_int :: "int \<Rightarrow> string" where
  "str_int i = (if i < 0 then CHR ''-'' # str_nat (nat (- i)) else str_nat (nat i))"

text \<open>\<^verbatim>\<open>s.split(c)\<close> for a one-character separator: never an empty list.\<close>

fun split_on :: "char \<Rightarrow> string \<Rightarrow> string list" where
  "split_on c [] = [[]]"
| "split_on c (x # xs) =
     (if x = c then [] # split_on c xs
      else (case split_on c xs of [] \<Rightarrow> [[x]] | p # ps \<Rightarrow> (x # p) # ps))"

text \<open>\<^verbatim>\<open>part.split('=', 1)\<close> on a part that holds the separator: the text before the
  first occurrence and the text after it.\<close>

definition split_first :: "char \<Rightarrow> string \<Rightarrow> string \<times> string" where
  "split_first c s = (takeWhile (\<lambda>x. x \<noteq> c) s, tl (dropWhile (\<lambda>x. x \<noteq> c) s))"

section \<open>Partition key model\<close>

text \<open>\<^verbatim>\<open>models/facts.py: extract_partition_keys\<close>, a \<^verbatim>\<open>dict[str, str]\<close>.\<close>

definition extract_partition_keys :: "date \<Rightarrow> (string \<rightharpoonup> string)" where
  "extract_partition_keys transaction_date =
     (let y = year transaction_date;
          quarter_num = (month transaction_date - 1) div 3 + 1;
          quarter = ''Q'' @ str_int quarter_num
      in [''year'' \<mapsto> str_int y, ''quarter'' \<mapsto> quarter])"

text \<open>\<^verbatim>\<open>models/facts.py: partition_path\<close>; \<^verbatim>\<open>keys['year']\<close> raises KeyError on a
  missing key.\<close>

definition partition_path :: "date \<Rightarrow> string \<Rightarrow> error + string" where
  "partition_path transaction_date base_path =
     (let keys = extract_partition_keys transaction_date in
      case keys ''year'' of None \<Rightarrow> Inl (KeyError ''year'')
      | Some y \<Rightarrow>
          (case keys ''quarter'' of None \<Rightarrow> Inl (KeyError ''quarter'')
           | Some q \<Rightarrow> Inr (base_path @ ''/year='' @ y @ ''/quarter='' @ q)))"

text \<open>\<^verbatim>\<open>storage/partition_manager.py: PartitionManager.extract_year_quarter\<close>.\<close>

definition extract_year_quarter :: "date \<Rightarrow> int \<times> string" where
  "extract_year_quarter transaction_date =
     (year transaction_date, ''Q'' @ str_int ((month transaction_date - 1) div 3 + 1))"

text \<open>
  \<^verbatim>\<open>PartitionManager.add_partition_columns\<close>. The frame is copied, so the caller's frame
  is not part of the result. A column that is not of datetime dtype goes through
  \<^verbatim>\<open>pd.to_datetime\<close>: a date becomes the Timestamp of its midnight, a Timestamp stays;
  what pandas makes of any other cell is the parameter \<open>parse\<close>. A Timestamp counts
  nanoseconds in 64 bits (pandas 1.x and 2.x), from 1677-09-21 00:12:43.145224193 to
  2262-04-11 23:47:16.854775807, so the midnight of a date exists from 1677-09-22 to
  2262-04-11; for any other date \<^verbatim>\<open>pd.to_datetime\<close> raises OutOfBoundsDatetime. The
  accessors \<^verbatim>\<open>.dt.year\<close> and \<^verbatim>\<open>.dt.quarter\<close> read the calendar day of the Timestamp,
  the quarter being \<open>(month - 1) div 3 + 1\<close>.
\<close>

definition date_le :: "date \<Rightarrow> date \<Rightarrow> bool" where
  "date_le a b =
     (year a < year b \<or>
      (year a = year b \<and> (month a < month b \<or> (month a = month b \<and> day a \<le> day b))))"

definition in_timestamp_range :: "date \<Rightarrow> bool" where
  "in_timestamp_range d =
     (date_le \<lparr>year = 1677, month = 9, day = 22\<rparr> d \<and>
      date_le d \<lparr>year = 2262, month = 4, day = 11\<rparr>)"

fun is_timestamp :: "pyval \<Rightarrow> bool" where
  "is_timestamp (VTimestamp d s) = True"
| "is_timestamp v = False"

fun to_datetime_cell :: "(pyval \<Rightarrow> error + pyval) \<Rightarrow> pyval \<Rightarrow> error + pyval" where
  "to_datetime_cell parse (VDate d) =
     (if in_timestamp_range d then Inr (VTimestamp d 0) else Inl OutOfBoundsDatetime)"
| "to_datetime_cell parse (VTimestamp d s) = Inr (VTimestamp d s)"
| "to_datetime_cell parse v = parse v"

fun sequence :: "(error + 'a) list \<Rightarrow> error + 'a list" where
  "sequence [] = Inr []"
| "sequence (x # xs) =
     (case x of Inl e \<Rightarrow> Inl e
      | Inr v \<Rightarrow> (case sequence xs of Inl e \<Rightarrow> Inl e | Inr vs \<Rightarrow> Inr (v # vs)))"

definition to_datetime :: "(pyval \<Rightarrow> error + pyval) \<Rightarrow> pyval list \<Rightarrow> error + pyval list" where
  "to_datetime parse cells = sequence (map (to_datetime_cell parse) cells)"

fun dt_year :: "pyval \<Rightarrow> error + pyval" where
  "dt_year (VTimestamp d s) = Inr (VInt (year d))"
| "dt_year v = Inl AttributeError"

fun dt_quarter :: "pyval \<Rightarrow> error + int" where
  "dt_quarter (VTimestamp d s) = Inr ((month d - 1) div 3 + 1)"
| "dt_quarter v = Inl AttributeError"

definition quarter_label :: "pyval \<Rightarrow> error + pyval" where
  "quarter_label v = (case dt_quarter v of Inl e \<Rightarrow> Inl e | Inr q \<Rightarrow> Inr (VStr (''Q'' @ str_int q)))"

definition add_partition_columns ::
  "(pyval \<Rightarrow> error + pyval) \<Rightarrow> pyval dataframe \<Rightarrow> string \<Rightarrow> error + pyval dataframe" where
  "add_partition_columns parse df date_column =
     (case get_column df date_column of Inl e \<Rightarrow> Inl e
      | Inr cells \<Rightarrow>
          (case (if list_all is_timestamp cells then Inr cells else to_datetime parse cells) of
             Inl e \<Rightarrow> Inl e
           | Inr stamps \<Rightarrow>
               (let df1 = (if list_all is_timestamp cells then df
                           else set_column df date_column stamps)
                in case sequence (map dt_year stamps) of Inl e \<Rightarrow> Inl e
                   | Inr years \<Rightarrow>
                       (let df2 = set_column df1 ''year'' years
                        in case get_column df2 date_column of Inl e \<Rightarrow> Inl e
                           | Inr cells2 \<Rightarrow>
                               (case sequence (map quarter_label cells2) of Inl e \<Rightarrow> Inl e
                                | Inr quarters \<Rightarrow> Inr (set_column df2 ''quarter'' quarters))))))"

text \<open>\<^verbatim>\<open>PartitionManager.parse_partition_path\<close>: a later segment with the same key
  overwrites an earlier one.\<close>

definition parse_step :: "(string \<rightharpoonup> string) \<Rightarrow> string \<Rightarrow> (string \<rightharpoonup> string)" where
  "parse_step partitions part =
     (if CHR ''='' \<in> set part
      then (case split_first CHR ''='' part of (key, v) \<Rightarrow> partitions(key \<mapsto> v))
      else partitions)"

definition parse_partition_path :: "string \<Rightarrow> (string \<rightharpoonup> string)" where
  "parse_partition_path path = foldl parse_step Map.empty (split_on CHR ''/'' path)"

section \<open>Numbers\<close>

text \<open>Python's \<^verbatim>\<open>round(x, 2)\<close>: to the nearest multiple of 1/100, a tie to the even one.\<close>

definition round_half_even :: "rat \<Rightarrow> int" where
  "round_half_even x =
     (let f = \<lfloor>x\<rfloor>; r = x - of_int f
      in if r < 1 / 2 then f else if 1 / 2 < r then f + 1 else if even f then f else f + 1)"

definition round2 :: "rat \<Rightarrow> rat" where
  "round2 x = of_int (round_half_even (x * 100)) / 100"

text \<open>Indexing a sequence at a non-negative position: IndexError past the end.\<close>

definition py_index :: "'a list \<Rightarrow> nat \<Rightarrow> error + 'a" where
  "py_index xs i = (if i < length xs then Inr (xs ! i) else Inl IndexError)"

text \<open>\<^verbatim>\<open>itertools.accumulate\<close>: the running sums.\<close>

fun accumulate_from :: "rat \<Rightarrow> rat list \<Rightarrow> rat list" where
  "accumulate_from acc [] = []"
| "accumulate_from acc (x # xs) = (acc + x) # accumulate_from (acc + x) xs"

definition accumulate :: "rat list \<Rightarrow> rat list" where
  "accumulate xs = accumulate_from 0 xs"

text \<open>\<^verbatim>\<open>bisect.bisect_right(a, x, lo, hi)\<close>, the loop of the standard library.\<close>

function bisect_right :: "rat list \<Rightarrow> rat \<Rightarrow> nat \<Rightarrow> nat \<Rightarrow> nat" where
  "bisect_right a x lo hi =
     (if lo < hi
      then (let mid = (lo + hi) div 2
            in if x < a ! mid then bisect_right a x lo mid else bisect_right a x (mid + 1) hi)
      else lo)"
  by pat_completeness auto
termination
  by (relation "measure (\<lambda>(a, x, lo, hi). hi - lo)") auto

declare bisect_right.simps [simp del]

section \<open>Weight model\<close>

text \<open>
  \<^verbatim>\<open>datagen/generator.py: _create_pareto_weights\<close>. \<^verbatim>\<open>int(n * 0.2)\<close> is \<open>n div 5\<close>.
  The division by \<open>n - top_20_pct\<close> is reached only for an index \<open>i\<close> with
  \<open>top_20_pct \<le> i < n\<close>, where the divisor is positive.
\<close>

definition create_pareto_weights :: "nat \<Rightarrow> rat \<Rightarrow> rat list" where
  "create_pareto_weights n factor =
     (let top_20_pct = max 1 (n div 5)
      in map (\<lambda>i. if i < top_20_pct then factor / of_nat top_20_pct
                    else (1 - factor) / of_nat (n - top_20_pct)) [0..<n])"

text \<open>
  The definition above computes with the numbers the floats stand for. A Python float
  operation returns the exact result rounded to a double, so the same function is given
  a second time with the rounding \<open>fl\<close> of each float operation explicit: one division in
  the first branch, a subtraction and then a division in the second (the conversion of
  the integer divisor to a float is exact below \<open>2 ^ 53\<close>). Round-to-nearest on doubles is
  one such \<open>fl\<close>, of relative error at most \<open>2 ^ -53\<close> away from underflow; with the
  identity for \<open>fl\<close> the definition above is regained.
\<close>

definition create_pareto_weights_fl :: "(rat \<Rightarrow> rat) \<Rightarrow> nat \<Rightarrow> rat \<Rightarrow> rat list" where
  "create_pareto_weights_fl fl n factor =
     (let top_20_pct = max 1 (n div 5)
      in map (\<lambda>i. if i < top_20_pct then fl (factor / of_nat top_20_pct)
                    else fl (fl (1 - factor) / of_nat (n - top_20_pct))) [0..<n])"

text \<open>A rounding that is never exact away from 0, of relative error \<open>1 / 1000\<close>.\<close>

definition demo_rounding :: "rat \<Rightarrow> rat" where
  "demo_rounding x = x * (1001 / 1000)"

text \<open>\<^verbatim>\<open>_create_recency_weights\<close>: \<open>1, 2, ..., n\<close>.\<close>

definition create_recency_weights :: "nat \<Rightarrow> rat list" where
  "create_recency_weights n = map (\<lambda>i. of_nat i + 1) [0..<n]"

section \<open>Random sources\<close>

text \<open>
  Three generators hold state in the process: the module \<^verbatim>\<open>random\<close>, Faker, and the
  global NumPy generator that \<^verbatim>\<open>DataFrame.sample\<close> draws from when no
  \<^verbatim>\<open>random_state\<close> is passed. Each state is the stream of raw draws still to come; a
  raw number stands for the uniform deviate in \<open>[0, 1)\<close> that is its fractional part.
  How a seed determines a stream is the library's business and a parameter here.
\<close>

record world =
  py_random :: "nat \<Rightarrow> rat"
  faker_random :: "nat \<Rightarrow> string"
  np_random :: "nat \<Rightarrow> rat"

record library =
  seed_random :: "int \<Rightarrow> nat \<Rightarrow> rat"
  seed_faker :: "int \<Rightarrow> nat \<Rightarrow> string"

text \<open>\<^verbatim>\<open>DataGenerator(seed)\<close>: \<^verbatim>\<open>Faker.seed(seed); random.seed(seed)\<close>. The NumPy
  generator is not touched.\<close>

definition DataGenerator :: "library \<Rightarrow> int \<Rightarrow> world \<Rightarrow> world" where
  "DataGenerator lib seed w =
     w\<lparr>py_random := seed_random lib seed, faker_random := seed_faker lib seed\<rparr>"

definition random_random :: "world \<Rightarrow> rat \<times> world" where
  "random_random w = (frac (py_random w 0), w\<lparr>py_random := (\<lambda>n. py_random w (Suc n))\<rparr>)"

definition np_random_sample :: "world \<Rightarrow> rat \<times> world" where
  "np_random_sample w = (frac (np_random w 0), w\<lparr>np_random := (\<lambda>n. np_random w (Suc n))\<rparr>)"

definition faker_next :: "world \<Rightarrow> string \<times> world" where
  "faker_next w = (faker_random w 0, w\<lparr>faker_random := (\<lambda>n. faker_random w (Suc n))\<rparr>)"

text \<open>\<^verbatim>\<open>random.uniform(a, b)\<close> is \<^verbatim>\<open>a + (b - a) * random()\<close>.\<close>

definition random_uniform :: "rat \<Rightarrow> rat \<Rightarrow> world \<Rightarrow> rat \<times> world" where
  "random_uniform a b w = (case random_random w of (u, w') \<Rightarrow> (a + (b - a) * u, w'))"

text \<open>\<^verbatim>\<open>random.randint(a, b)\<close>: one of the \<open>b - a + 1\<close> integers from \<open>a\<close>.\<close>

definition random_randint :: "int \<Rightarrow> int \<Rightarrow> world \<Rightarrow> int \<times> world" where
  "random_randint a b w =
     (case random_random w of (u, w') \<Rightarrow> (a + \<lfloor>u * of_int (b - a + 1)\<rfloor>, w'))"

text \<open>\<^verbatim>\<open>random.choice(seq)\<close>: IndexError on an empty sequence.\<close>

definition random_choice :: "'a list \<Rightarrow> world \<Rightarrow> error + ('a \<times> world)" where
  "random_choice seq w =
     (if seq = [] then Inl IndexError
      else (case random_random w of (u, w') \<Rightarrow>
              (case py_index seq (nat \<lfloor>u * of_nat (length seq)\<rfloor>) of
                 Inl e \<Rightarrow> Inl e | Inr x \<Rightarrow> Inr (x, w'))))"

text \<open>\<^verbatim>\<open>random.choices(population, weights=weights, k=1)[0]\<close>, Python 3.9 and later.\<close>

definition random_choices :: "'a list \<Rightarrow> rat list \<Rightarrow> world \<Rightarrow> error + ('a \<times> world)" where
  "random_choices population weights w =
     (let n = length population; cum_weights = accumulate weights
      in if length cum_weights \<noteq> n
         then Inl (ValueError ''The number of weights does not match the population'')
         else if cum_weights = [] then Inl IndexError
         else (let total = last cum_weights
               in if total \<le> 0 then Inl (ValueError ''Total of weights must be greater than zero'')
                  else (case random_random w of (u, w') \<Rightarrow>
                          (case py_index population (bisect_right cum_weights (u * total) 0 (n - 1)) of
                             Inl e \<Rightarrow> Inl e | Inr x \<Rightarrow> Inr (x, w')))))"

text \<open>
  \<^verbatim>\<open>df.sample(n=1).iloc[0]\<close> and \<^verbatim>\<open>df.sample(n=1, weights=ws).iloc[0]\<close>: one row
  drawn with the NumPy generator; ValueError on a frame without rows, on weights of the
  wrong length, on a negative weight and on weights that sum to zero. The weighted draw
  looks the deviate up in the normalised running sums.
\<close>

definition sample_one :: "'a list \<Rightarrow> world \<Rightarrow> error + ('a \<times> world)" where
  "sample_one rows w =
     (if rows = [] then Inl (ValueError ''a must be greater than 0 unless no samples are taken'')
      else (case np_random_sample w of (u, w') \<Rightarrow>
              (case py_index rows (nat \<lfloor>u * of_nat (length rows)\<rfloor>) of
                 Inl e \<Rightarrow> Inl e | Inr x \<Rightarrow> Inr (x, w'))))"

definition sample_one_weighted :: "'a list \<Rightarrow> rat list \<Rightarrow> world \<Rightarrow> error + ('a \<times> world)" where
  "sample_one_weighted rows weights w =
     (if length weights \<noteq> length rows
      then Inl (ValueError ''Weights and axis to be sampled must be of same length'')
      else if list_ex (\<lambda>x. x < 0) weights
      then Inl (ValueError ''weight vector many not include negative values'')
      else if sum_list weights = 0 then Inl (ValueError ''Invalid weights: weights sum to zero'')
      else (case np_random_sample w of (u, w') \<Rightarrow>
              (let cdf = accumulate (map (\<lambda>x. x / sum_list weights) weights)
               in case py_index rows (length (takeWhile (\<lambda>c. c \<le> u) cdf)) of
                    Inl e \<Rightarrow> Inl e | Inr x \<Rightarrow> Inr (x, w'))))"

section \<open>Dimension rows\<close>

text \<open>A row of the product dimension, with its SCD Type 2 fields.\<close>

record product_row =
  product_key :: int
  product_id :: string
  product_name :: string
  category :: string
  subcategory :: string
  brand :: string
  unit_cost :: rat
  unit_price :: rat
  effective_date :: date
  expiration_date :: date
  is_current :: bool

text \<open>Of the other dimensions the fact generator reads the columns below; a frame may
  carry more columns, which are the record's extension.\<close>

record time_row =
  date :: date
  time_key :: int

record geo_row =
  geo_key :: int

record customer_row =
  customer_key :: int

record payment_row =
  payment_key :: int

record fact_row =
  transaction_id :: int
  line_item_id :: int
  transaction_date :: date
  transaction_timestamp :: "date \<times> int \<times> int \<times> int"
  time_key :: int
  geo_key :: int
  product_key :: int
  customer_key :: int
  payment_key :: int
  quantity :: int
  unit_price :: rat
  revenue :: rat
  cost :: rat
  discount_amount :: rat
  profit :: rat

section \<open>Product dimension generator\<close>

definition categories :: "(string \<times> string list) list" where
  "categories =
     [(''Electronics'', [''Smartphones'', ''Laptops'', ''Tablets'', ''Accessories'']),
      (''Clothing'', [''Mens'', ''Womens'', ''Kids'', ''Accessories'']),
      (''Home & Garden'', [''Furniture'', ''Decor'', ''Kitchen'', ''Outdoor'']),
      (''Sports'', [''Equipment'', ''Apparel'', ''Footwear'', ''Accessories'']),
      (''Books'', [''Fiction'', ''Non-Fiction'', ''Educational'', ''Comics''])]"

definition brands :: "string list" where
  "brands = [''BrandA'', ''BrandB'', ''BrandC'', ''BrandD'', ''BrandE'', ''BrandF'', ''BrandG'']"

definition historical_date :: date where
  "historical_date = \<lparr>year = 2022, month = 1, day = 1\<rparr>"

definition current_date :: date where
  "current_date = \<lparr>year = 2024, month = 1, day = 1\<rparr>"

definition far_future :: date where
  "far_future = \<lparr>year = 9999, month = 12, day = 31\<rparr>"

text \<open>The format \<^verbatim>\<open>f"PROD-{product_idx + 1:05d}"\<close>: zeros on the left up to five digits.\<close>

definition zero_pad :: "nat \<Rightarrow> string \<Rightarrow> string" where
  "zero_pad width s = replicate (width - length s) CHR ''0'' @ s"

definition product_id_of :: "nat \<Rightarrow> string" where
  "product_id_of product_idx = ''PROD-'' @ zero_pad 5 (str_nat (product_idx + 1))"

text \<open>One pass of the loop body of \<^verbatim>\<open>generate_dim_product\<close>: the rows appended for one
  product, the next surrogate key and the generators' state.\<close>

definition product_versions ::
  "rat \<Rightarrow> nat \<Rightarrow> int \<Rightarrow> world \<Rightarrow> error + (product_row list \<times> int \<times> world)" where
  "product_versions change_rate product_idx key w0 =
     (case random_choice (map fst categories) w0 of Inl e \<Rightarrow> Inl e
      | Inr (cat, w1) \<Rightarrow>
     (case map_of categories cat of None \<Rightarrow> Inl (KeyError cat)
      | Some subcategories \<Rightarrow>
     (case random_choice subcategories w1 of Inl e \<Rightarrow> Inl e
      | Inr (sub, w2) \<Rightarrow>
     (case random_choice brands w2 of Inl e \<Rightarrow> Inl e
      | Inr (br, w3) \<Rightarrow>
     (case faker_next w3 of (color_name, w4) \<Rightarrow>
     (case random_uniform 5 200 w4 of (c, w5) \<Rightarrow>
     (case random_uniform (13 / 10) (5 / 2) w5 of (m, w6) \<Rightarrow>
     (case random_random w6 of (r, w7) \<Rightarrow>
       (let name = br @ '' '' @ sub @ '' '' @ color_name;
            cost_now = round2 c;
            price_now = round2 (cost_now * m);
            has_change = (r < change_rate);
            current_record = (\<lambda>k.
              \<lparr>product_row.product_key = k, product_id = product_id_of product_idx,
               product_name = name, category = cat, subcategory = sub, brand = br,
               unit_cost = cost_now, product_row.unit_price = price_now,
               effective_date = (if has_change then current_date else historical_date),
               expiration_date = far_future, is_current = True\<rparr>)
        in if has_change
           then (case random_uniform (4 / 5) (6 / 5) w7 of (a, w8) \<Rightarrow>
                (case random_uniform (13 / 10) (5 / 2) w8 of (b, w9) \<Rightarrow>
                  (let old_price = round2 (price_now * a);
                       old_cost = round2 (old_price / b);
                       historical_record =
                         \<lparr>product_row.product_key = key, product_id = product_id_of product_idx,
                          product_name = name, category = cat, subcategory = sub, brand = br,
                          unit_cost = old_cost, product_row.unit_price = old_price,
                          effective_date = historical_date, expiration_date = current_date,
                          is_current = False\<rparr>
                   in Inr ([historical_record, current_record (key + 1)], key + 2, w9))))
           else Inr ([current_record key], key + 1, w7))))))))))"

fun product_loop ::
  "rat \<Rightarrow> nat list \<Rightarrow> int \<Rightarrow> world \<Rightarrow> error + (product_row list \<times> world)" where
  "product_loop change_rate [] key w = Inr ([], w)"
| "product_loop change_rate (product_idx # rest) key w =
     (case product_versions change_rate product_idx key w of Inl e \<Rightarrow> Inl e
      | Inr (rows, key', w') \<Rightarrow>
          (case product_loop change_rate rest key' w' of Inl e \<Rightarrow> Inl e
           | Inr (others, w'') \<Rightarrow> Inr (rows @ others, w'')))"

definition generate_dim_product ::
  "library \<Rightarrow> int \<Rightarrow> rat \<Rightarrow> int \<Rightarrow> world \<Rightarrow> error + (product_row list \<times> world)" where
  "generate_dim_product lib num_products change_rate seed w =
     product_loop change_rate [0..<nat num_products] 1 (DataGenerator lib seed w)"

section \<open>Fact generator\<close>

text \<open>The body of the line-item loop of \<^verbatim>\<open>generate_sales_fact\<close>.\<close>

definition line_item ::
  "product_row list \<Rightarrow> rat list \<Rightarrow> int \<Rightarrow> date \<Rightarrow> date \<times> int \<times> int \<times> int \<Rightarrow>
   int \<Rightarrow> int \<Rightarrow> int \<Rightarrow> int \<Rightarrow> int \<Rightarrow> world \<Rightarrow> error + (fact_row \<times> world)" where
  "line_item current_products pareto_products tid tdate tstamp tkey gkey ckey pkey lid w0 =
     (case random_choices [0..<length current_products] pareto_products w0 of Inl e \<Rightarrow> Inl e
      | Inr (product_idx, w1) \<Rightarrow>
     (case py_index current_products product_idx of Inl e \<Rightarrow> Inl e
      | Inr product_record \<Rightarrow>
     (case random_uniform (19 / 20) (21 / 20) w1 of (j, w2) \<Rightarrow>
     (case random_choices [1, 2, 3, 4, 5] [50, 30, 12, 5, 3] w2 of Inl e \<Rightarrow> Inl e
      | Inr (qty, w3) \<Rightarrow>
     (case random_random w3 of (r, w4) \<Rightarrow>
       (let base_unit_price = product_row.unit_price product_record;
            price = round2 (base_unit_price * j);
            cost_per_unit = unit_cost product_record;
            rev = round2 (of_int qty * price);
            total_cost = round2 (of_int qty * cost_per_unit);
            finish = (\<lambda>discount w.
              (let final_revenue = round2 (rev - discount);
                   prof = round2 (final_revenue - total_cost)
               in Inr (\<lparr>transaction_id = tid, line_item_id = lid, transaction_date = tdate,
                         transaction_timestamp = tstamp, time_key = tkey, geo_key = gkey,
                         product_key = product_row.product_key product_record,
                         customer_key = ckey, payment_key = pkey, quantity = qty,
                         unit_price = price, revenue = final_revenue, cost = total_cost,
                         discount_amount = discount, profit = prof\<rparr>, w)))
        in if r < 1 / 5
           then (case random_uniform (1 / 20) (1 / 4) w4 of (discount_pct, w5) \<Rightarrow>
                   finish (round2 (rev * discount_pct)) w5)
           else finish 0 w4))))))"

fun line_items ::
  "product_row list \<Rightarrow> rat list \<Rightarrow> int \<Rightarrow> date \<Rightarrow> date \<times> int \<times> int \<times> int \<Rightarrow>
   int \<Rightarrow> int \<Rightarrow> int \<Rightarrow> int \<Rightarrow> int list \<Rightarrow> world \<Rightarrow> error + (fact_row list \<times> world)" where
  "line_items cp pp tid tdate tstamp tkey gkey ckey pkey [] w = Inr ([], w)"
| "line_items cp pp tid tdate tstamp tkey gkey ckey pkey (lid # rest) w =
     (case line_item cp pp tid tdate tstamp tkey gkey ckey pkey lid w of Inl e \<Rightarrow> Inl e
      | Inr (row, w') \<Rightarrow>
          (case line_items cp pp tid tdate tstamp tkey gkey ckey pkey rest w' of Inl e \<Rightarrow> Inl e
           | Inr (others, w'') \<Rightarrow> Inr (row # others, w'')))"

text \<open>The body of the transaction loop: the rows of one transaction.\<close>

definition transaction ::
  "'a time_row_scheme list \<Rightarrow> 'b geo_row_scheme list \<Rightarrow> product_row list \<Rightarrow>
   'c customer_row_scheme list \<Rightarrow> 'd payment_row_scheme list \<Rightarrow> rat list \<Rightarrow> rat list \<Rightarrow>
   int \<Rightarrow> world \<Rightarrow> error + (fact_row list \<times> world)" where
  "transaction time_df geo_df current_products customer_df payment_df
       pareto_products pareto_customers tid w0 =
     (case sample_one_weighted time_df (create_recency_weights (length time_df)) w0 of
        Inl e \<Rightarrow> Inl e
      | Inr (time_record, w1) \<Rightarrow>
     (case random_randint 8 21 w1 of (hour, w2) \<Rightarrow>
     (case random_randint 0 59 w2 of (minute, w3) \<Rightarrow>
     (case random_randint 0 59 w3 of (second, w4) \<Rightarrow>
     (case sample_one geo_df w4 of Inl e \<Rightarrow> Inl e
      | Inr (geo_record, w5) \<Rightarrow>
     (case random_choices [0..<length customer_df] pareto_customers w5 of Inl e \<Rightarrow> Inl e
      | Inr (customer_idx, w6) \<Rightarrow>
     (case py_index customer_df customer_idx of Inl e \<Rightarrow> Inl e
      | Inr customer_record \<Rightarrow>
     (case sample_one payment_df w6 of Inl e \<Rightarrow> Inl e
      | Inr (payment_record, w7) \<Rightarrow>
     (case random_choices [1, 2, 3, 4, 5] [40, 30, 15, 10, 5] w7 of Inl e \<Rightarrow> Inl e
      | Inr (num_line_items, w8) \<Rightarrow>
         line_items current_products pareto_products tid (date time_record)
           (date time_record, hour, minute, second) (time_row.time_key time_record)
           (geo_row.geo_key geo_record) (customer_row.customer_key customer_record)
           (payment_row.payment_key payment_record) [1..num_line_items] w8)))))))))"

fun transactions ::
  "'a time_row_scheme list \<Rightarrow> 'b geo_row_scheme list \<Rightarrow> product_row list \<Rightarrow>
   'c customer_row_scheme list \<Rightarrow> 'd payment_row_scheme list \<Rightarrow> rat list \<Rightarrow> rat list \<Rightarrow>
   int list \<Rightarrow> world \<Rightarrow> error + (fact_row list \<times> world)" where
  "transactions time_df geo_df cp customer_df payment_df pp pc [] w = Inr ([], w)"
| "transactions time_df geo_df cp customer_df payment_df pp pc (tid # rest) w =
     (case transaction time_df geo_df cp customer_df payment_df pp pc tid w of Inl e \<Rightarrow> Inl e
      | Inr (rows, w') \<Rightarrow>
          (case transactions time_df geo_df cp customer_df payment_df pp pc rest w' of
             Inl e \<Rightarrow> Inl e
           | Inr (others, w'') \<Rightarrow> Inr (rows @ others, w'')))"

definition generate_sales_fact ::
  "library \<Rightarrow> int \<Rightarrow> 'a time_row_scheme list \<Rightarrow> 'b geo_row_scheme list \<Rightarrow> product_row list \<Rightarrow>
   'c customer_row_scheme list \<Rightarrow> 'd payment_row_scheme list \<Rightarrow> rat \<Rightarrow> int \<Rightarrow> world \<Rightarrow>
   error + (fact_row list \<times> world)" where
  "generate_sales_fact lib num_transactions time_df geo_df product_df customer_df payment_df
       pareto_factor seed w =
     (let w0 = DataGenerator lib seed w;
          current_products = filter is_current product_df;
          num_products = length current_products;
          num_customers = length customer_df;
          pareto_products = create_pareto_weights num_products pareto_factor;
          pareto_customers = create_pareto_weights num_customers pareto_factor
      in transactions time_df geo_df current_products customer_df payment_df
           pareto_products pareto_customers [1..num_transactions] w0)"

section \<open>Predicates and example inputs\<close>

text \<open>A number with at most two decimals, and a fact row whose derived measures are
  exactly what the business rules say.\<close>

definition two_decimals :: "rat \<Rightarrow> bool" where
  "two_decimals x = (x * 100 \<in> \<int>)"


text \<open>A small run: both seeded streams yield zero at every draw, and so does the NumPy
  stream of the process; one row per dimension.\<close>

definition demo_library :: library where
  "demo_library = \<lparr>seed_random = (\<lambda>s n. 0), seed_faker = (\<lambda>s n. ''Red'')\<rparr>"

definition demo_world :: world where
  "demo_world = \<lparr>py_random = (\<lambda>n. 1 / 2), faker_random = (\<lambda>n. ''''), np_random = (\<lambda>n. 0)\<rparr>"

definition demo_product :: product_row where
  "demo_product =
     \<lparr>product_row.product_key = 1, product_id = ''PROD-00001'', product_name = ''BrandA Mens Red'',
      category = ''Clothing'', subcategory = ''Mens'', brand = ''BrandA'', unit_cost = 4,
      product_row.unit_price = 20, effective_date = historical_date, expiration_date = far_future,
      is_current = True\<rparr>"

definition demo_time :: "time_row list" where
  "demo_time = [\<lparr>date = \<lparr>year = 2023, month = 1, day = 1\<rparr>, time_row.time_key = 20230101\<rparr>]"

definition demo_row :: fact_row where
  "demo_row =
     \<lparr>transaction_id = 1, line_item_id = 1,
      transaction_date = \<lparr>year = 2023, month = 1, day = 1\<rparr>,
      transaction_timestamp = (\<lparr>year = 2023, month = 1, day = 1\<rparr>, 8, 0, 0),
      time_key = 20230101, geo_key = 1, product_key = 1, customer_key = 1, payment_key = 1,
      quantity = 1, unit_price = 19, revenue = 361 / 20, cost = 4,
      discount_amount = 19 / 20, profit = 281 / 20\<rparr>"

section \<open>Product versions: predicates and example rows\<close>

text \<open>Reading a decimal string back, to tell product ids apart; and the shape of the rows
  one product contributes: a current version, after at most one historical version
  that expires when the current one starts.\<close>

definition digit_value :: "char \<Rightarrow> nat" where
  "digit_value c = length (takeWhile (\<lambda>d. d \<noteq> c) ''0123456789'')"

definition digits_value :: "string \<Rightarrow> nat" where
  "digits_value s = foldl (\<lambda>a c. 10 * a + digit_value c) 0 s"

definition current_version :: "nat \<Rightarrow> product_row \<Rightarrow> bool" where
  "current_version idx c =
     (product_id c = product_id_of idx \<and> is_current c \<and> expiration_date c = far_future)"

definition versions_ok :: "nat \<Rightarrow> product_row list \<Rightarrow> bool" where
  "versions_ok idx rs =
     ((\<exists>c. rs = [c] \<and> current_version idx c) \<or>
      (\<exists>h c. rs = [h, c] \<and> current_version idx c \<and> product_id h = product_id_of idx \<and>
              \<not> is_current h \<and> expiration_date h = effective_date c))"

text \<open>The two rows of the small run with one product and change rate 0.5.\<close>

definition demo_historical :: product_row where
  "demo_historical =
     \<lparr>product_row.product_key = 1, product_id = ''PROD-00001'',
      product_name = ''BrandA Smartphones Red'', category = ''Electronics'',
      subcategory = ''Smartphones'', brand = ''BrandA'', unit_cost = 4,
      product_row.unit_price = 26 / 5, effective_date = historical_date,
      expiration_date = current_date, is_current = False\<rparr>"

definition demo_current :: product_row where
  "demo_current =
     \<lparr>product_row.product_key = 2, product_id = ''PROD-00001'',
      product_name = ''BrandA Smartphones Red'', category = ''Electronics'',
      subcategory = ''Smartphones'', brand = ''BrandA'', unit_cost = 5,
      product_row.unit_price = 13 / 2, effective_date = current_date,
      expiration_date = far_future, is_current = True\<rparr>"

section \<open>Referential integrity validator\<close>















section \<open>Measure and time validators\<close>

text \<open>
  \<^verbatim>\<open>datagen/schemas.py\<close>. Both validators assign helper columns to the frame they are
  given, so each returns its outcome together with the frame as the caller finds it
  afterwards. Column arithmetic is cell by cell; a cell that is not a number raises
  TypeError. An integer column times (or minus) an integer column stays integer.
\<close>

fun num_of :: "pyval \<Rightarrow> error + rat" where
  "num_of (VInt i) = Inr (of_int i)"
| "num_of (VNum x) = Inr x"
| "num_of v = Inl TypeError"

definition numeric_column :: "pyval dataframe \<Rightarrow> string \<Rightarrow> error + rat list" where
  "numeric_column df c =
     (case get_column df c of Inl e \<Rightarrow> Inl e | Inr cells \<Rightarrow> sequence (map num_of cells))"

fun cell_mult :: "pyval \<Rightarrow> pyval \<Rightarrow> error + pyval" where
  "cell_mult (VInt a) (VInt b) = Inr (VInt (a * b))"
| "cell_mult a b =
     (case num_of a of Inl e \<Rightarrow> Inl e
      | Inr x \<Rightarrow> (case num_of b of Inl e \<Rightarrow> Inl e | Inr y \<Rightarrow> Inr (VNum (x * y))))"

fun cell_minus :: "pyval \<Rightarrow> pyval \<Rightarrow> error + pyval" where
  "cell_minus (VInt a) (VInt b) = Inr (VInt (a - b))"
| "cell_minus a b =
     (case num_of a of Inl e \<Rightarrow> Inl e
      | Inr x \<Rightarrow> (case num_of b of Inl e \<Rightarrow> Inl e | Inr y \<Rightarrow> Inr (VNum (x - y))))"

definition column_op ::
  "(pyval \<Rightarrow> pyval \<Rightarrow> error + pyval) \<Rightarrow> pyval dataframe \<Rightarrow> string \<Rightarrow> string \<Rightarrow> error + pyval list" where
  "column_op f df a b =
     (case get_column df a of Inl e \<Rightarrow> Inl e
      | Inr xs \<Rightarrow>
          (case get_column df b of Inl e \<Rightarrow> Inl e
           | Inr ys \<Rightarrow> sequence (map (\<lambda>(x, y). f x y) (zip xs ys))))"

text \<open>The number of rows with \<^verbatim>\<open>abs(df[a] - df[b]) > 0.01\<close>.\<close>

definition count_apart :: "pyval dataframe \<Rightarrow> string \<Rightarrow> string \<Rightarrow> error + nat" where
  "count_apart df a b =
     (case numeric_column df a of Inl e \<Rightarrow> Inl e
      | Inr xs \<Rightarrow>
          (case numeric_column df b of Inl e \<Rightarrow> Inl e
           | Inr ys \<Rightarrow> Inr (length (filter (\<lambda>(x, y). \<bar>x - y\<bar> > 1 / 100) (zip xs ys)))))"

text \<open>\<^verbatim>\<open>(df[c] < 0).any()\<close>.\<close>

definition any_negative :: "pyval dataframe \<Rightarrow> string \<Rightarrow> error + bool" where
  "any_negative df c =
     (case numeric_column df c of Inl e \<Rightarrow> Inl e | Inr xs \<Rightarrow> Inr (list_ex (\<lambda>x. x < 0) xs))"

fun first_negative :: "pyval dataframe \<Rightarrow> string list \<Rightarrow> error + bool" where
  "first_negative df [] = Inr True"
| "first_negative df (c # cs) =
     (case any_negative df c of Inl e \<Rightarrow> Inl e
      | Inr neg \<Rightarrow> if neg then Inl (ValueError (''Found negative '' @ c @ '' values''))
                   else first_negative df cs)"

definition validate_fact_measures :: "pyval dataframe \<Rightarrow> (error + bool) \<times> pyval dataframe" where
  "validate_fact_measures df =
     (case column_op cell_mult df ''quantity'' ''unit_price'' of Inl e \<Rightarrow> (Inl e, df)
      | Inr expected_revenue \<Rightarrow>
     (let df1 = set_column df ''expected_revenue'' expected_revenue
      in case count_apart df1 ''revenue'' ''expected_revenue'' of Inl e \<Rightarrow> (Inl e, df1)
         | Inr revenue_errors \<Rightarrow>
       if revenue_errors \<noteq> 0
       then (Inl (ValueError (''Found '' @ str_nat revenue_errors @
                    '' records with incorrect revenue calculation'')), df1)
       else (case column_op cell_minus df1 ''revenue'' ''cost'' of Inl e \<Rightarrow> (Inl e, df1)
             | Inr expected_profit \<Rightarrow>
            (let df2 = set_column df1 ''expected_profit'' expected_profit
             in case count_apart df2 ''profit'' ''expected_profit'' of Inl e \<Rightarrow> (Inl e, df2)
                | Inr profit_errors \<Rightarrow>
              if profit_errors \<noteq> 0
              then (Inl (ValueError (''Found '' @ str_nat profit_errors @
                           '' records with incorrect profit calculation'')), df2)
              else (first_negative df2
                      [''quantity'', ''unit_price'', ''revenue'', ''cost'', ''discount_amount''],
                    df2)))))"

text \<open>\<^verbatim>\<open>validate_time_dimension\<close>.\<close>

fun expected_key_of :: "pyval \<Rightarrow> error + pyval" where
  "expected_key_of (VDate d) = Inr (VInt (year d * 10000 + month d * 100 + day d))"
| "expected_key_of (VTimestamp d s) = Inr (VInt (year d * 10000 + month d * 100 + day d))"
| "expected_key_of v = Inl AttributeError"

definition validate_time_dimension :: "pyval dataframe \<Rightarrow> (error + bool) \<times> pyval dataframe" where
  "validate_time_dimension df =
     (case numeric_column df ''time_key'' of Inl e \<Rightarrow> (Inl e, df)
      | Inr keys \<Rightarrow>
     (let invalid_keys = length (filter (\<lambda>k. k < 19000101 \<or> k > 21001231) keys)
      in if invalid_keys \<noteq> 0
         then (Inl (ValueError (''Found '' @ str_nat invalid_keys @ '' invalid time_key values'')), df)
         else (case get_column df ''date'' of Inl e \<Rightarrow> (Inl e, df)
               | Inr dates \<Rightarrow>
              (case sequence (map expected_key_of dates) of Inl e \<Rightarrow> (Inl e, df)
               | Inr expected \<Rightarrow>
              (let df1 = set_column df ''expected_key'' expected
               in case numeric_column df1 ''time_key'' of Inl e \<Rightarrow> (Inl e, df1)
                  | Inr keys1 \<Rightarrow>
                 (case numeric_column df1 ''expected_key'' of Inl e \<Rightarrow> (Inl e, df1)
                  | Inr expected1 \<Rightarrow>
                 (let mismatches = length (filter (\<lambda>(k, x). k \<noteq> x) (zip keys1 expected1))
                  in if mismatches \<noteq> 0
                     then (Inl (ValueError (''Found '' @ str_nat mismatches @
                                  '' time_key values that don't match date'')), df1)
                     else (Inr True, df1))))))))"

text \<open>The frame of one fact row, as \<^verbatim>\<open>pd.DataFrame(records)\<close> builds it (measure columns).\<close>

definition measure_frame :: "fact_row list \<Rightarrow> pyval dataframe" where
  "measure_frame rows =
     [(''quantity'', map (\<lambda>r. VInt (quantity r)) rows),
      (''unit_price'', map (\<lambda>r. VNum (unit_price r)) rows),
      (''revenue'', map (\<lambda>r. VNum (revenue r)) rows),
      (''cost'', map (\<lambda>r. VNum (cost r)) rows),
      (''discount_amount'', map (\<lambda>r. VNum (discount_amount r)) rows),
      (''profit'', map (\<lambda>r. VNum (profit r)) rows)]"

definition demo_time_frame :: "pyval dataframe" where
  "demo_time_frame =
     [(''time_key'', [VInt 20230101]), (''date'', [VDate \<lparr>year = 2023, month = 1, day = 1\<rparr>])]"

definition plain_row :: fact_row where
  "plain_row = demo_row\<lparr>revenue := 19, discount_amount := 0, profit := 15\<rparr>"

definition two_days :: "time_row list" where
  "two_days =
     [\<lparr>date = \<lparr>year = 2023, month = 1, day = 1\<rparr>, time_row.time_key = 20230101\<rparr>,
      \<lparr>date = \<lparr>year = 2023, month = 1, day = 2\<rparr>, time_row.time_key = 20230102\<rparr>]"

definition later_row :: fact_row where
  "later_row =
     demo_row\<lparr>transaction_date := \<lparr>year = 2023, month = 1, day = 2\<rparr>,
              transaction_timestamp := (\<lparr>year = 2023, month = 1, day = 2\<rparr>, 8, 0, 0),
              time_key := 20230102\<rparr>"

section \<open>Properties of the partition key model\<close>

lemma split_on_nonempty: "split_on c s \<noteq> []"
  by (induction s) (auto split: list.splits)

lemma split_on_append: "split_on c (xs @ c # ys) = split_on c xs @ split_on c ys"
  using split_on_nonempty[of c]
  by (induction xs) (auto split: list.splits)

lemma split_on_single: "c \<notin> set s \<Longrightarrow> split_on c s = [s]"
  by (induction s) (auto split: list.splits)

lemma digit_char_in: "n < 10 \<Longrightarrow> digit_char n \<in> set ''0123456789''"
  unfolding digit_char_def by (rule nth_mem) simp

lemma str_nat_digits: "set (str_nat n) \<subseteq> set ''0123456789''"
proof (induction n rule: str_nat.induct)
  case (1 n)
  show ?case
  proof (cases "n < 10")
    case True
    then show ?thesis using digit_char_in[of n] by (subst str_nat.simps) simp
  next
    case False
    then show ?thesis using 1 digit_char_in[of "n mod 10"]
      by (subst str_nat.simps) simp
  qed
qed

lemma str_int_no_sep: "CHR ''/'' \<notin> set (str_int i)"
  using str_nat_digits[of "nat i"] str_nat_digits[of "nat (- i)"]
  by (auto simp: str_int_def)

text \<open>The two segments that \<open>partition_path\<close> appends are read last, so they decide
  the keys \<open>year\<close> and \<open>quarter\<close> whatever the base path holds.\<close>

lemma parse_last_two:
  assumes "CHR ''/'' \<notin> set y" "CHR ''/'' \<notin> set q"
  shows "parse_partition_path (b @ ''/year='' @ y @ ''/quarter='' @ q)
           = (foldl parse_step Map.empty (split_on CHR ''/'' b))(''year'' \<mapsto> y, ''quarter'' \<mapsto> q)"
proof -
  have 1: "split_on CHR ''/'' (''year='' @ y @ ''/quarter='' @ q) = [''year='' @ y, ''quarter='' @ q]"
    using split_on_append[of "CHR ''/''" "''year='' @ y" "''quarter='' @ q"] assms
    by (simp add: split_on_single)
  have 2: "split_on CHR ''/'' (b @ ''/year='' @ y @ ''/quarter='' @ q)
            = split_on CHR ''/'' b @ [''year='' @ y, ''quarter='' @ q]"
    using split_on_append[of "CHR ''/''" b "''year='' @ y @ ''/quarter='' @ q"] 1 by simp
  show ?thesis
    unfolding parse_partition_path_def 2
    by (simp add: parse_step_def split_first_def)
qed

lemma get_set_column: "get_column (set_column df c cells) c' =
    (if c' = c then Inr cells else get_column df c')"
  by (simp add: get_column_def set_column_def update_conv')

lemma map_of_set_column: "map_of (set_column df c cells) c' =
    (if c' = c then Some cells else map_of df c')"
  by (simp add: set_column_def update_conv')

text \<open>
  C3. Round trip of the partition path: for every date \<open>d\<close> (valid or not) and every base
  path \<open>b\<close>, \<open>partition_path d b\<close> returns a path, and \<open>parse_partition_path\<close> maps it
  at \<open>year\<close> to \<open>str(d.year)\<close> and at \<open>quarter\<close> to \<open>"Q" + str((d.month - 1) // 3 + 1)\<close>.
\<close>

theorem partition_path_roundtrip:
  "\<exists>p. partition_path d b = Inr p \<and>
       parse_partition_path p ''year'' = Some (str_int (year d)) \<and>
       parse_partition_path p ''quarter'' = Some (''Q'' @ str_int ((month d - 1) div 3 + 1))"
proof -
  let ?y = "str_int (year d)" and ?q = "''Q'' @ str_int ((month d - 1) div 3 + 1)"
  have p: "partition_path d b = Inr (b @ ''/year='' @ ?y @ ''/quarter='' @ ?q)"
    by (simp add: partition_path_def extract_partition_keys_def Let_def)
  have "CHR ''/'' \<notin> set ?y" "CHR ''/'' \<notin> set ?q"
    using str_int_no_sep by simp_all
  from parse_last_two[OF this, of b] p show ?thesis by simp
qed

text \<open>
  C1, as the code has it. The three derivations give the same quarter string
  \<open>"Q" + str((d.month - 1) // 3 + 1)\<close>. For the year, \<open>extract_year_quarter\<close> and the
  \<open>year\<close> column of \<open>add_partition_columns\<close> hold the integer \<open>d.year\<close>, while
  \<open>extract_partition_keys\<close> holds its decimal string \<open>str(d.year)\<close>. The two pure
  functions do so for every date \<open>d\<close>; \<open>add_partition_columns\<close> does so on any frame
  whose date column is not itself labelled \<open>year\<close> and holds dates that a Timestamp can
  represent (1677-09-22 to 2262-04-11).
\<close>

theorem partition_keys_agree:
  assumes col: "map_of df date_column = Some (map VDate ds)"
      and rng: "list_all in_timestamp_range ds"
      and ne: "date_column \<noteq> ''year''"
  shows "\<exists>df'. add_partition_columns parse df date_column = Inr df' \<and>
           map_of df' ''year'' = Some (map (\<lambda>d. VInt (fst (extract_year_quarter d))) ds) \<and>
           map_of df' ''quarter'' = Some (map (\<lambda>d. VStr (snd (extract_year_quarter d))) ds) \<and>
           fst (extract_year_quarter d) = year d \<and>
           snd (extract_year_quarter d) = ''Q'' @ str_int ((month d - 1) div 3 + 1) \<and>
           extract_partition_keys d ''quarter'' = Some (snd (extract_year_quarter d)) \<and>
           extract_partition_keys d ''year'' = Some (str_int (fst (extract_year_quarter d)))"
proof -
  let ?stamps = "map (\<lambda>d. VTimestamp d 0) ds"
  let ?years = "map (\<lambda>d. VInt (year d)) ds"
  let ?quarters = "map (\<lambda>d. VStr (''Q'' @ str_int ((month d - 1) div 3 + 1))) ds"
  have g: "get_column df date_column = Inr (map VDate ds)"
    using col by (simp add: get_column_def)
  have conv: "to_datetime parse (map VDate ds) = Inr ?stamps"
    using rng unfolding to_datetime_def by (induction ds) simp_all
  have ys: "sequence (map dt_year ?stamps) = Inr ?years"
    by (induction ds) simp_all
  have qs: "sequence (map quarter_label ?stamps) = Inr ?quarters"
    by (induction ds) (simp_all add: quarter_label_def)
  have ts: "list_all is_timestamp (map VDate ds) \<longleftrightarrow> ds = []"
    by (cases ds) simp_all
  have run: "add_partition_columns parse df date_column =
      Inr (set_column (set_column (if ds = [] then df else set_column df date_column ?stamps) ''year'' ?years)
             ''quarter'' ?quarters)"
  proof (cases "ds = []")
    case True
    then show ?thesis using g ne
      by (simp add: add_partition_columns_def get_set_column)
  next
    case False
    then show ?thesis using g ne conv ys qs
      by (simp add: add_partition_columns_def get_set_column ts)
  qed
  show ?thesis
    unfolding run
    by (simp add: map_of_set_column extract_year_quarter_def extract_partition_keys_def Let_def)
qed

theorem partition_keys_agree_witness:
  "in_timestamp_range \<lparr>year = 2023, month = 2, day = 15\<rparr> \<and>
   (\<exists>df'. add_partition_columns (\<lambda>v. Inl TypeError)
            [(''transaction_date'', [VDate \<lparr>year = 2023, month = 2, day = 15\<rparr>])] ''transaction_date'' = Inr df' \<and>
         map_of df' ''year'' = Some [VInt 2023] \<and>
         map_of df' ''quarter'' = Some [VStr ''Q1''] \<and>
         extract_year_quarter \<lparr>year = 2023, month = 2, day = 15\<rparr> = (2023, ''Q1'') \<and>
         extract_partition_keys \<lparr>year = 2023, month = 2, day = 15\<rparr> ''quarter'' = Some ''Q1'' \<and>
         extract_partition_keys \<lparr>year = 2023, month = 2, day = 15\<rparr> ''year'' = Some ''2023'')"
proof -
  have r: "in_timestamp_range \<lparr>year = 2023, month = 2, day = 15\<rparr>"
    by (simp add: in_timestamp_range_def date_le_def)
  show ?thesis
    using r partition_keys_agree[of "[(''transaction_date'', [VDate \<lparr>year = 2023, month = 2, day = 15\<rparr>])]"
      "''transaction_date''" "[\<lparr>year = 2023, month = 2, day = 15\<rparr>]"
      "\<lambda>v. Inl TypeError" "\<lparr>year = 2023, month = 2, day = 15\<rparr>"]
    by (simp add: extract_year_quarter_def str_int_def str_nat.simps digit_char_def)
qed

text \<open>
  C1 as stated fails on the year value: at 2023-02-15 \<open>extract_partition_keys\<close> yields the
  string \<open>"2023"\<close> and \<open>extract_year_quarter\<close> the integer \<open>2023\<close>, and in Python a
  \<open>str\<close> never equals an \<open>int\<close>. It also fails for a date no Timestamp holds: at
  9999-12-31, the sentinel of the product dimension, \<open>add_partition_columns\<close> raises
  while the two pure functions return.
\<close>

theorem year_value_counterexample:
  "extract_partition_keys \<lparr>year = 2023, month = 2, day = 15\<rparr> ''year'' = Some ''2023'' \<and>
   fst (extract_year_quarter \<lparr>year = 2023, month = 2, day = 15\<rparr>) = 2023 \<and>
   map_option VStr (extract_partition_keys \<lparr>year = 2023, month = 2, day = 15\<rparr> ''year'')
     \<noteq> Some (VInt (fst (extract_year_quarter \<lparr>year = 2023, month = 2, day = 15\<rparr>))) \<and>
   add_partition_columns (\<lambda>v. Inl TypeError)
     [(''transaction_date'', [VDate \<lparr>year = 9999, month = 12, day = 31\<rparr>])] ''transaction_date''
     = Inl OutOfBoundsDatetime \<and>
   fst (extract_year_quarter \<lparr>year = 9999, month = 12, day = 31\<rparr>) = 9999"
proof -
  have "add_partition_columns (\<lambda>v. Inl TypeError)
     [(''transaction_date'', [VDate \<lparr>year = 9999, month = 12, day = 31\<rparr>])] ''transaction_date''
     = Inl OutOfBoundsDatetime"
    by (simp add: add_partition_columns_def get_column_def to_datetime_def
        in_timestamp_range_def date_le_def)
  then show ?thesis
    by (simp add: extract_partition_keys_def extract_year_quarter_def str_int_def str_nat.simps
        digit_char_def)
qed

section \<open>Properties of the weight model\<close>

lemma sum_list_map_upt_split:
  fixes f :: "nat \<Rightarrow> rat"
  assumes "k \<le> n"
  shows "sum_list (map f [0..<n]) = sum_list (map f [0..<k]) + sum_list (map f [k..<n])"
proof -
  have "[0..<n] = [0..<k] @ [k..<n]"
    using assms by (metis le_add_diff_inverse upt_add_eq_append zero_le)
  then show ?thesis by simp
qed

lemma sum_list_const_upt:
  fixes c :: rat
  assumes "list_all (\<lambda>i. f i = c) [a..<b]"
  shows "sum_list (map f [a..<b]) = of_nat (b - a) * c"
proof -
  have "map f [a..<b] = replicate (b - a) c"
    using assms by (intro replicate_eqI) (auto simp: list_all_iff)
  then show ?thesis by (simp add: sum_list_replicate)
qed

lemma pareto_fl_sum_parts:
  assumes "2 \<le> n"
  shows "sum_list (create_pareto_weights_fl fl n factor) =
           of_nat (max 1 (n div 5)) * fl (factor / of_nat (max 1 (n div 5))) +
           of_nat (n - max 1 (n div 5)) * fl (fl (1 - factor) / of_nat (n - max 1 (n div 5)))"
proof -
  define t where "t = max 1 (n div 5)"
  have t: "0 < t" "t < n" using assms by (auto simp: t_def)
  let ?f = "\<lambda>i. if i < t then fl (factor / of_nat t) else fl (fl (1 - factor) / of_nat (n - t))"
  have top: "sum_list (map ?f [0..<t]) = of_nat (t - 0) * fl (factor / of_nat t)"
    by (rule sum_list_const_upt) (simp add: list_all_iff)
  have rest: "sum_list (map ?f [t..<n]) = of_nat (n - t) * fl (fl (1 - factor) / of_nat (n - t))"
    by (rule sum_list_const_upt) (simp add: list_all_iff)
  have "sum_list (map ?f [0..<n]) =
          of_nat t * fl (factor / of_nat t) + of_nat (n - t) * fl (fl (1 - factor) / of_nat (n - t))"
    using t sum_list_map_upt_split[of t n ?f] top rest by simp
  moreover have "create_pareto_weights_fl fl n factor = map ?f [0..<n]"
    by (simp add: create_pareto_weights_fl_def Let_def t_def)
  ultimately show ?thesis by (simp add: t_def)
qed

text \<open>A quotient rounded with relative error \<open>u\<close>, taken \<open>k\<close> times, is within \<open>u |x|\<close>
  of the dividend.\<close>

lemma rounded_share:
  fixes x :: rat
  assumes fl: "\<And>y. \<bar>fl y - y\<bar> \<le> u * \<bar>y\<bar>" and k: "0 < k"
  shows "\<bar>of_nat k * fl (x / of_nat k) - x\<bar> \<le> u * \<bar>x\<bar>"
proof -
  have kpos: "(0::rat) < of_nat k" using k by simp
  have "of_nat k * fl (x / of_nat k) - x = of_nat k * (fl (x / of_nat k) - x / of_nat k)"
    using kpos by (simp add: algebra_simps)
  then have "\<bar>of_nat k * fl (x / of_nat k) - x\<bar> = of_nat k * \<bar>fl (x / of_nat k) - x / of_nat k\<bar>"
    using kpos by (simp add: abs_mult)
  also have "\<dots> \<le> of_nat k * (u * \<bar>x / of_nat k\<bar>)"
    using fl[of "x / of_nat k"] kpos by (intro mult_left_mono) simp_all
  also have "\<dots> = u * \<bar>x\<bar>"
    using kpos by (simp add: abs_divide)
  finally show ?thesis .
qed

lemma pareto_fl_sum:
  assumes fl: "\<And>y. \<bar>fl y - y\<bar> \<le> u * \<bar>y\<bar>"
      and n: "2 \<le> n" and f: "0 \<le> factor" "factor \<le> 1"
  shows "\<bar>sum_list (create_pareto_weights_fl fl n factor) - 1\<bar> \<le> u * (2 + u)"
proof -
  define t where "t = max 1 (n div 5)"
  define g where "g = fl (1 - factor)"
  have t: "0 < t" "0 < n - t" using n by (auto simp: t_def)
  have u0: "0 \<le> u" using fl[of 1] by simp
  have A: "\<bar>of_nat t * fl (factor / of_nat t) - factor\<bar> \<le> u * factor"
    using rounded_share[OF fl t(1), of factor] f by simp
  have B: "\<bar>of_nat (n - t) * fl (g / of_nat (n - t)) - g\<bar> \<le> u * \<bar>g\<bar>"
    by (rule rounded_share[OF fl t(2)])
  have G: "\<bar>g - (1 - factor)\<bar> \<le> u * (1 - factor)"
    using fl[of "1 - factor"] f by (simp add: g_def)
  have "\<bar>g\<bar> \<le> \<bar>g - (1 - factor)\<bar> + \<bar>1 - factor\<bar>" by linarith
  then have Gabs: "\<bar>g\<bar> \<le> (1 - factor) * (1 + u)"
    using G f by (simp add: algebra_simps)
  have "u * \<bar>g\<bar> \<le> u * ((1 - factor) * (1 + u))"
    using Gabs u0 by (rule mult_left_mono)
  then have B': "\<bar>of_nat (n - t) * fl (g / of_nat (n - t)) - g\<bar> \<le> u * ((1 - factor) * (1 + u))"
    using B by linarith
  have S: "sum_list (create_pareto_weights_fl fl n factor) =
           of_nat t * fl (factor / of_nat t) + of_nat (n - t) * fl (g / of_nat (n - t))"
    using pareto_fl_sum_parts[OF n, of fl factor] by (simp add: t_def g_def)
  have "\<bar>sum_list (create_pareto_weights_fl fl n factor) - 1\<bar>
        \<le> u * factor + u * ((1 - factor) * (1 + u)) + u * (1 - factor)"
    unfolding S using A B' G by linarith
  also have "\<dots> = u * (2 + u) - u * (factor * (1 + u))"
    by (simp add: algebra_simps)
  also have "\<dots> \<le> u * (2 + u)"
  proof -
    have "0 \<le> u * (factor * (1 + u))"
      using u0 f by (intro mult_nonneg_nonneg) simp_all
    then show ?thesis by linarith
  qed
  finally show ?thesis .
qed

lemma pareto_fl_exact: "create_pareto_weights_fl (\<lambda>x. x) n factor = create_pareto_weights n factor"
  by (simp add: create_pareto_weights_fl_def create_pareto_weights_def)

lemma pareto_sum:
  assumes "2 \<le> n"
  shows "sum_list (create_pareto_weights n factor) = 1"
proof -
  have "sum_list (create_pareto_weights_fl (\<lambda>x. x) n factor) = 1"
    using assms by (simp add: pareto_fl_sum_parts)
  then show ?thesis by (simp add: pareto_fl_exact)
qed

text \<open>
  C5, as the code has it. For every \<open>n\<close>, \<open>factor\<close> and rounding \<open>fl\<close> the list has length
  \<open>n\<close>, its first \<open>top = max(1, n div 5)\<close> items are the rounded \<open>factor / top\<close> and the
  others the rounded \<open>(1 - factor) / (n - top)\<close>; for \<open>n = 1\<close> it is \<open>[factor / 1]\<close>, that
  is \<open>[factor]\<close>, not \<open>[1.0]\<close>. The function returns the list and sums nothing; the sum spoken of is the
  exact sum of the returned values (adding them up in floats rounds once more at every
  addition). For \<open>n \<ge> 2\<close> and \<open>0 \<le> factor \<le> 1\<close> it is 1 up to
  rounding: within \<open>u * (2 + u)\<close> of 1 when every operation has relative error at most
  \<open>u\<close>. It is exactly 1 in exact arithmetic (\<open>fl\<close> the identity, for every \<open>factor\<close>),
  and need not be 1 otherwise.
\<close>

theorem pareto_weights_shape:
  "length (create_pareto_weights_fl fl n factor) = n \<and>
   (\<forall>i. i < max 1 (n div 5) \<and> i < n \<longrightarrow>
        create_pareto_weights_fl fl n factor ! i = fl (factor / of_nat (max 1 (n div 5)))) \<and>
   (\<forall>i. max 1 (n div 5) \<le> i \<and> i < n \<longrightarrow>
        create_pareto_weights_fl fl n factor ! i
          = fl (fl (1 - factor) / of_nat (n - max 1 (n div 5)))) \<and>
   (n = 1 \<longrightarrow> create_pareto_weights_fl fl n factor = [fl factor]) \<and>
   (2 \<le> n \<and> 0 \<le> factor \<and> factor \<le> 1 \<and> (\<forall>x. \<bar>fl x - x\<bar> \<le> u * \<bar>x\<bar>) \<longrightarrow>
        \<bar>sum_list (create_pareto_weights_fl fl n factor) - 1\<bar> \<le> u * (2 + u)) \<and>
   create_pareto_weights_fl (\<lambda>x. x) n factor = create_pareto_weights n factor \<and>
   (2 \<le> n \<longrightarrow> sum_list (create_pareto_weights n factor) = 1)"
proof -
  have "n = 1 \<longrightarrow> create_pareto_weights_fl fl n factor = [fl factor]"
    by (simp add: create_pareto_weights_fl_def)
  moreover have "length (create_pareto_weights_fl fl n factor) = n"
    by (simp add: create_pareto_weights_fl_def Let_def)
  moreover have "\<forall>i. i < max 1 (n div 5) \<and> i < n \<longrightarrow>
        create_pareto_weights_fl fl n factor ! i = fl (factor / of_nat (max 1 (n div 5)))"
    by (simp add: create_pareto_weights_fl_def Let_def)
  moreover have "\<forall>i. max 1 (n div 5) \<le> i \<and> i < n \<longrightarrow>
        create_pareto_weights_fl fl n factor ! i
          = fl (fl (1 - factor) / of_nat (n - max 1 (n div 5)))"
    by (auto simp: create_pareto_weights_fl_def Let_def)
  moreover have "2 \<le> n \<and> 0 \<le> factor \<and> factor \<le> 1 \<and> (\<forall>x. \<bar>fl x - x\<bar> \<le> u * \<bar>x\<bar>) \<longrightarrow>
        \<bar>sum_list (create_pareto_weights_fl fl n factor) - 1\<bar> \<le> u * (2 + u)"
    using pareto_fl_sum[of fl u n factor] by blast
  ultimately show ?thesis using pareto_sum pareto_fl_exact by blast
qed

lemma demo_rounding_error: "\<bar>demo_rounding x - x\<bar> \<le> 1 / 1000 * \<bar>x\<bar>"
proof -
  have "demo_rounding x - x = 1 / 1000 * x"
    by (simp add: demo_rounding_def algebra_simps)
  then have "\<bar>demo_rounding x - x\<bar> = \<bar>1 / 1000 * x\<bar>"
    by (rule arg_cong)
  also have "\<dots> = 1 / 1000 * \<bar>x\<bar>"
    by (simp only: abs_mult)
  finally show ?thesis by (rule eq_refl)
qed

theorem pareto_weights_shape_witness:
  "create_pareto_weights 7 (4 / 5) = [4 / 5, 1 / 30, 1 / 30, 1 / 30, 1 / 30, 1 / 30, 1 / 30] \<and>
   sum_list (create_pareto_weights 7 (4 / 5)) = 1 \<and>
   create_pareto_weights 1 (4 / 5) = [4 / 5] \<and>
   create_pareto_weights_fl demo_rounding 1 (4 / 5) = [demo_rounding (4 / 5)] \<and>
   (\<forall>x. \<bar>demo_rounding x - x\<bar> \<le> 1 / 1000 * \<bar>x\<bar>) \<and>
   \<bar>sum_list (create_pareto_weights_fl demo_rounding 7 (4 / 5)) - 1\<bar> \<le> 2001 / 1000000 \<and>
   sum_list (create_pareto_weights_fl demo_rounding 7 (4 / 5)) \<noteq> 1"
proof -
  have "create_pareto_weights 7 (4 / 5) = [4 / 5, 1 / 30, 1 / 30, 1 / 30, 1 / 30, 1 / 30, 1 / 30]"
    by code_simp
  moreover have "sum_list (create_pareto_weights 7 (4 / 5)) = 1"
    using pareto_weights_shape[of "\<lambda>x. x" 7 "4 / 5" 0] by simp
  moreover have "create_pareto_weights 1 (4 / 5) = [4 / 5]"
    using pareto_weights_shape[of "\<lambda>x. x" 1 "4 / 5" 0] by metis
  moreover have "create_pareto_weights_fl demo_rounding 1 (4 / 5) = [demo_rounding (4 / 5)]"
    using pareto_weights_shape[of demo_rounding 1 "4 / 5" 0] by simp
  moreover have "\<bar>sum_list (create_pareto_weights_fl demo_rounding 7 (4 / 5)) - 1\<bar> \<le> 2001 / 1000000"
    using pareto_weights_shape[of demo_rounding 7 "4 / 5" "1 / 1000"] demo_rounding_error by simp
  moreover have "sum_list (create_pareto_weights_fl demo_rounding 7 (4 / 5)) \<noteq> 1"
    by (simp add: pareto_fl_sum_parts demo_rounding_def)
  ultimately show ?thesis using demo_rounding_error by simp
qed

text \<open>C5 as stated fails at \<open>n = 1\<close>, \<open>factor = 0.8\<close>: the result is \<open>[0.8]\<close> (the
  division \<open>0.8 / 1\<close> is exact in floats too), which is neither \<open>[1.0]\<close> nor of sum 1.\<close>

theorem pareto_single_counterexample:
  "create_pareto_weights 1 (4 / 5) \<noteq> [1] \<and> sum_list (create_pareto_weights 1 (4 / 5)) \<noteq> 1"
  by (simp add: create_pareto_weights_def)

section \<open>Measures of the fact rows\<close>

lemma round_half_even_of_int: "round_half_even (of_int k) = k"
  by (simp add: round_half_even_def)


lemma round2_id: "two_decimals x \<Longrightarrow> round2 x = x"
proof -
  assume "two_decimals x"
  then obtain k where k: "x * 100 = of_int k"
    by (auto simp: two_decimals_def elim: Ints_cases)
  then have "round2 x = of_int k / 100"
    by (simp add: round2_def round_half_even_of_int)
  also have "\<dots> = x" using k by simp
  finally show ?thesis .
qed










text \<open>A run on one row per dimension, every raw draw being zero: one transaction with
  one discounted line item.\<close>

lemma bisect_right_lo:
  "(\<forall>i. lo \<le> i \<and> i < hi \<longrightarrow> x < a ! i) \<Longrightarrow> bisect_right a x lo hi = lo"
proof (induction a x lo hi rule: bisect_right.induct)
  case (1 a x lo hi)
  show ?case
  proof (cases "lo < hi")
    case True
    then have mid: "lo \<le> (lo + hi) div 2" "(lo + hi) div 2 < hi" by auto
    then have "x < a ! ((lo + hi) div 2)" using "1.prems" by blast
    moreover have "bisect_right a x lo ((lo + hi) div 2) = lo"
      using "1.IH"(1)[OF True refl \<open>x < a ! ((lo + hi) div 2)\<close>] "1.prems" mid by auto
    ultimately show ?thesis using True
      by (subst bisect_right.simps) (simp add: Let_def)
  next
    case False
    then show ?thesis by (subst bisect_right.simps) simp
  qed
qed

lemma bisect_right_first:
  "list_all (\<lambda>c. x < c) a \<Longrightarrow> hi \<le> length a \<Longrightarrow> bisect_right a x 0 hi = 0"
  by (rule bisect_right_lo) (auto simp: list_all_length)

lemma round2_numeral_div: "round2 (of_int k / 100) = of_int k / 100"
  by (rule round2_id) (simp add: two_decimals_def)

lemma demo_line_item:
  "line_item [demo_product] [4 / 5] 1 d ts tkey 1 1 1 1
      \<lparr>py_random = (\<lambda>n. 0), faker_random = f, np_random = g\<rparr>
   = Inr (\<lparr>transaction_id = 1, line_item_id = 1, transaction_date = d, transaction_timestamp = ts,
           time_key = tkey, geo_key = 1, product_key = 1, customer_key = 1, payment_key = 1,
           quantity = 1, unit_price = 19, revenue = 361 / 20, cost = 4,
           discount_amount = 19 / 20, profit = 281 / 20\<rparr>,
          \<lparr>py_random = (\<lambda>n. 0), faker_random = f, np_random = g\<rparr>)"
proof -
  have r: "round2 19 = 19" "round2 4 = 4" "round2 (19 / 20) = 19 / 20"
    "round2 (361 / 20) = 361 / 20" "round2 (281 / 20) = 281 / 20"
    using round2_numeral_div[of 1900] round2_numeral_div[of 400] round2_numeral_div[of 95]
      round2_numeral_div[of 1805] round2_numeral_div[of 1405] by simp_all
  show ?thesis
    by (simp add: line_item_def random_choices_def accumulate_def bisect_right_first
        py_index_def random_random_def random_uniform_def demo_product_def r Let_def)
qed




section \<open>Empty dimensions\<close>

lemma random_choices_mem:
  "random_choices population weights w = Inr (x, w') \<Longrightarrow> x \<in> set population"
  by (auto simp: random_choices_def py_index_def Let_def split: if_splits prod.splits sum.splits)

lemma random_choices_empty: "\<exists>e. random_choices [] weights w = Inl e"
  by (simp add: random_choices_def Let_def)

lemma sample_one_empty: "\<exists>e. sample_one [] w = Inl e"
  by (simp add: sample_one_def)

lemma sample_one_weighted_empty:
  "\<exists>e. sample_one_weighted [] (create_recency_weights 0) w = Inl e"
  by (simp add: sample_one_weighted_def create_recency_weights_def)

lemma line_items_no_products:
  assumes "1 \<le> n"
  shows "\<exists>e. line_items [] pp tid tdate tstamp tkey gkey ckey pkey [1..n] w = Inl e"
proof -
  have "[1..n] = 1 # [2..n]" using assms by (simp add: upto_rec1)
  moreover have "\<exists>e. line_item [] pp tid tdate tstamp tkey gkey ckey pkey 1 w = Inl e"
    by (simp add: line_item_def random_choices_def Let_def)
  ultimately show ?thesis by auto
qed

lemma transaction_no_time:
  "\<exists>e. transaction [] geo_df cp customer_df payment_df pp pc tid w = Inl e"
  by (simp add: transaction_def sample_one_weighted_def create_recency_weights_def)

lemma transaction_no_geo:
  "\<exists>e. transaction time_df [] cp customer_df payment_df pp pc tid w = Inl e"
  by (simp add: transaction_def sample_one_def split: sum.splits prod.splits)

lemma transaction_no_customers:
  "\<exists>e. transaction time_df geo_df cp [] payment_df pp pc tid w = Inl e"
  by (simp add: transaction_def random_choices_def Let_def split: sum.splits prod.splits)

lemma transaction_no_payments:
  "\<exists>e. transaction time_df geo_df cp customer_df [] pp pc tid w = Inl e"
  by (simp add: transaction_def sample_one_def split: sum.splits prod.splits)

lemma line_items_after_choice:
  assumes "random_choices [1, 2, 3, 4, 5] ws w7 = Inr (n, w8)"
  shows "\<exists>e. line_items [] pp tid tdate tstamp tkey gkey ckey pkey [1..n] w8 = Inl e"
proof -
  have "1 \<le> n" using random_choices_mem[OF assms] by auto
  then show ?thesis by (rule line_items_no_products)
qed

lemma transaction_no_products:
  "\<exists>e. transaction time_df geo_df [] customer_df payment_df pp pc tid w = Inl e"
  unfolding transaction_def
  by (simp split: sum.splits prod.splits) (blast dest: line_items_after_choice)

lemma transaction_empty_dimension:
  assumes "time_df = [] \<or> geo_df = [] \<or> cp = [] \<or> customer_df = [] \<or> payment_df = []"
  shows "\<exists>e. transaction time_df geo_df cp customer_df payment_df pp pc tid w = Inl e"
  using assms
proof (elim disjE)
  assume "time_df = []"
  then show ?thesis using transaction_no_time[of geo_df cp customer_df payment_df] by simp
next
  assume "geo_df = []"
  then show ?thesis using transaction_no_geo[of time_df cp customer_df payment_df] by simp
next
  assume "cp = []"
  then show ?thesis using transaction_no_products[of time_df geo_df customer_df payment_df] by simp
next
  assume "customer_df = []"
  then show ?thesis using transaction_no_customers[of time_df geo_df cp payment_df] by simp
next
  assume "payment_df = []"
  then show ?thesis using transaction_no_payments[of time_df geo_df cp customer_df] by simp
qed

text \<open>
  C8. With at least one transaction asked for, an empty time, geography, product,
  customer or payment frame makes \<open>generate_sales_fact\<close> end in an exception: the first
  pass of the transaction loop raises before a row is appended, so no list of rows,
  empty or not, is returned. The errors come from the sampling primitives
  (\<^verbatim>\<open>DataFrame.sample\<close>, \<^verbatim>\<open>random.choices\<close>), not from a check of the inputs.
\<close>

theorem empty_dimension_fails:
  assumes "1 \<le> num_transactions"
      and "time_df = [] \<or> geo_df = [] \<or> product_df = [] \<or> customer_df = [] \<or> payment_df = []"
  shows "\<exists>e. generate_sales_fact lib num_transactions time_df geo_df product_df customer_df
               payment_df pareto_factor seed w = Inl e"
proof -
  have ids: "[1..num_transactions] = 1 # [2..num_transactions]"
    using assms(1) by (simp add: upto_rec1)
  have "time_df = [] \<or> geo_df = [] \<or> filter is_current product_df = [] \<or> customer_df = [] \<or> payment_df = []"
    using assms(2) by auto
  from transaction_empty_dimension[OF this]
  obtain e where "transaction time_df geo_df (filter is_current product_df) customer_df payment_df
      (create_pareto_weights (length (filter is_current product_df)) pareto_factor)
      (create_pareto_weights (length customer_df) pareto_factor) 1 (DataGenerator lib seed w) = Inl e"
    by blast
  then show ?thesis
    by (simp add: generate_sales_fact_def Let_def ids)
qed

theorem empty_dimension_fails_witness:
  "generate_sales_fact demo_library 1 ([] :: time_row list) [\<lparr>geo_row.geo_key = 1\<rparr>] [demo_product]
      [\<lparr>customer_row.customer_key = 1\<rparr>] [\<lparr>payment_row.payment_key = 1\<rparr>] (4 / 5) 42 demo_world
     = Inl (ValueError ''Invalid weights: weights sum to zero'') \<and>
   (\<exists>e. generate_sales_fact demo_library 1 demo_time [\<lparr>geo_row.geo_key = 1\<rparr>] []
      [\<lparr>customer_row.customer_key = 1\<rparr>] [\<lparr>payment_row.payment_key = 1\<rparr>] (4 / 5) 42 demo_world
     = Inl e)"
proof -
  have "generate_sales_fact demo_library 1 ([] :: time_row list) [\<lparr>geo_row.geo_key = 1\<rparr>] [demo_product]
      [\<lparr>customer_row.customer_key = 1\<rparr>] [\<lparr>payment_row.payment_key = 1\<rparr>] (4 / 5) 42 demo_world
     = Inl (ValueError ''Invalid weights: weights sum to zero'')"
    by (simp add: generate_sales_fact_def Let_def transaction_def sample_one_weighted_def
        create_recency_weights_def)
  moreover have "\<exists>e. generate_sales_fact demo_library 1 demo_time [\<lparr>geo_row.geo_key = 1\<rparr>] []
      [\<lparr>customer_row.customer_key = 1\<rparr>] [\<lparr>payment_row.payment_key = 1\<rparr>] (4 / 5) 42 demo_world
     = Inl e"
    using empty_dimension_fails[of 1 demo_time "[\<lparr>geo_row.geo_key = 1\<rparr>]" "[]"
        "[\<lparr>customer_row.customer_key = 1\<rparr>]" "[\<lparr>payment_row.payment_key = 1\<rparr>]" demo_library "4 / 5" 42 demo_world]
    by simp
  ultimately show ?thesis by simp
qed

section \<open>The SCD Type 2 invariant of the product dimension\<close>

lemma digit_value_digit_char: "n < 10 \<Longrightarrow> digit_value (digit_char n) = n"
proof -
  assume "n < 10"
  have digits: "[0..<10] = [0, 1, 2, 3, 4, 5, 6, 7, 8, 9]"
    by code_simp
  have "list_all (\<lambda>k. digit_value (digit_char k) = k) [0..<10]"
    unfolding digits by (simp add: digit_value_def digit_char_def)
  moreover have "n \<in> set [0..<10]"
    using \<open>n < 10\<close> by simp
  ultimately show ?thesis
    unfolding list_all_iff by blast
qed

lemma digits_value_snoc: "digits_value (s @ [c]) = 10 * digits_value s + digit_value c"
  by (simp add: digits_value_def)

lemma digits_value_str_nat: "digits_value (str_nat n) = n"
proof (induction n rule: str_nat.induct)
  case (1 n)
  show ?case
  proof (cases "n < 10")
    case True
    then show ?thesis
      by (subst str_nat.simps) (simp add: digits_value_def digit_value_digit_char)
  next
    case False
    then have "digits_value (str_nat n) = 10 * digits_value (str_nat (n div 10)) + digit_value (digit_char (n mod 10))"
      by (subst str_nat.simps) (simp add: digits_value_snoc)
    also have "\<dots> = 10 * (n div 10) + n mod 10"
      using 1 False by (simp add: digit_value_digit_char)
    finally show ?thesis by simp
  qed
qed

lemma digits_value_zeros: "foldl (\<lambda>a c. 10 * a + digit_value c) 0 (replicate k CHR ''0'') = 0"
  by (induction k) (simp_all add: digit_value_def)

lemma digits_value_zero_pad: "digits_value (zero_pad width s) = digits_value s"
  by (simp add: zero_pad_def digits_value_def digits_value_zeros)

lemma product_id_of_inj: "product_id_of i = product_id_of j \<Longrightarrow> i = j"
proof -
  assume "product_id_of i = product_id_of j"
  then have "zero_pad 5 (str_nat (i + 1)) = zero_pad 5 (str_nat (j + 1))"
    by (simp add: product_id_of_def)
  then have "digits_value (zero_pad 5 (str_nat (i + 1))) = digits_value (zero_pad 5 (str_nat (j + 1)))"
    by simp
  then show "i = j" by (simp add: digits_value_zero_pad digits_value_str_nat)
qed

lemma product_versions_ok:
  "product_versions change_rate idx key w = Inr (rs, key', w') \<Longrightarrow> versions_ok idx rs"
  unfolding product_versions_def versions_ok_def current_version_def
  by (auto simp: Let_def split: sum.splits prod.splits option.splits if_splits)

lemma versions_ok_ids: "versions_ok idx rs \<Longrightarrow> r \<in> set rs \<Longrightarrow> product_id r = product_id_of idx"
  by (auto simp: versions_ok_def current_version_def)

lemma product_loop_ids:
  "product_loop change_rate idxs key w = Inr (rows, w') \<Longrightarrow> r \<in> set rows \<Longrightarrow>
   \<exists>i \<in> set idxs. product_id r = product_id_of i"
proof (induction idxs arbitrary: key w rows)
  case Nil
  then show ?case by simp
next
  case (Cons idx idxs)
  from Cons.prems(1) obtain rs key1 w1 others
    where step: "product_versions change_rate idx key w = Inr (rs, key1, w1)"
      and rest: "product_loop change_rate idxs key1 w1 = Inr (others, w')"
      and rows: "rows = rs @ others"
    by (auto split: sum.splits prod.splits)
  from Cons.prems(2) rows consider "r \<in> set rs" | "r \<in> set others" by auto
  then show ?case
  proof cases
    case 1
    then show ?thesis using versions_ok_ids[OF product_versions_ok[OF step]] by simp
  next
    case 2
    then show ?thesis using Cons.IH[OF rest] by auto
  qed
qed

lemma product_loop_versions:
  "product_loop change_rate idxs key w = Inr (rows, w') \<Longrightarrow> distinct idxs \<Longrightarrow> i \<in> set idxs \<Longrightarrow>
   versions_ok i (filter (\<lambda>r. product_id r = product_id_of i) rows)"
proof (induction idxs arbitrary: key w rows)
  case Nil
  then show ?case by simp
next
  case (Cons idx idxs)
  from Cons.prems(1) obtain rs key1 w1 others
    where step: "product_versions change_rate idx key w = Inr (rs, key1, w1)"
      and rest: "product_loop change_rate idxs key1 w1 = Inr (others, w')"
      and rows: "rows = rs @ others"
    by (auto split: sum.splits prod.splits)
  have ok: "versions_ok idx rs" by (rule product_versions_ok[OF step])
  show ?case
  proof (cases "i = idx")
    case True
    have "filter (\<lambda>r. product_id r = product_id_of i) rs = rs"
      using versions_ok_ids[OF ok] True by (simp add: filter_id_conv)
    moreover have "filter (\<lambda>r. product_id r = product_id_of i) others = []"
    proof -
      have "product_id r \<noteq> product_id_of i" if mem: "r \<in> set others" for r
      proof -
        obtain j where j: "j \<in> set idxs" "product_id r = product_id_of j"
          using product_loop_ids[OF rest mem] by blast
        then have "j \<noteq> i" using Cons.prems(2) True by auto
        then show ?thesis using j product_id_of_inj by auto
      qed
      then show ?thesis by (simp add: filter_empty_conv)
    qed
    ultimately show ?thesis using ok rows True by simp
  next
    case False
    then have "i \<in> set idxs" using Cons.prems(3) by simp
    moreover have "filter (\<lambda>r. product_id r = product_id_of i) rs = []"
      using versions_ok_ids[OF ok] False product_id_of_inj by (auto simp: filter_empty_conv)
    ultimately show ?thesis using Cons.IH[OF rest] Cons.prems(2) rows by simp
  qed
qed

text \<open>
  C4. In the output of \<open>generate_dim_product\<close>, for every \<open>product_id\<close> that occurs:
  exactly one row of that id is current, its \<open>expiration_date\<close> is 9999-12-31, and every
  historical row of that id expires on the current row's \<open>effective_date\<close>. The
  generator always returns (\<open>generate_dim_product_returns\<close> below).
\<close>

theorem scd2_invariant:
  assumes run: "generate_dim_product lib num_products change_rate seed w = Inr (rows, w')"
      and key: "pid \<in> product_id ` set rows"
  shows "\<exists>c. filter (\<lambda>r. product_id r = pid \<and> is_current r) rows = [c] \<and>
             expiration_date c = far_future \<and>
             (\<forall>h \<in> set rows. product_id h = pid \<and> \<not> is_current h \<longrightarrow>
                expiration_date h = effective_date c)"
proof -
  let ?idxs = "[0..<nat num_products]"
  have loop: "product_loop change_rate ?idxs 1 (DataGenerator lib seed w) = Inr (rows, w')"
    using run by (simp add: generate_dim_product_def)
  from key obtain r where r: "r \<in> set rows" "pid = product_id r" by auto
  obtain i where i: "i \<in> set ?idxs" "pid = product_id_of i"
    using product_loop_ids[OF loop r(1)] r(2) by blast
  let ?F = "filter (\<lambda>r. product_id r = pid) rows"
  have ok: "versions_ok i ?F"
    using product_loop_versions[OF loop _ i(1)] i(2) by simp
  have cur: "filter (\<lambda>r. product_id r = pid \<and> is_current r) rows = filter is_current ?F"
    by (simp add: conj_commute)
  have hist: "h \<in> set ?F" if "h \<in> set rows" "product_id h = pid" for h
    using that by simp
  from ok show ?thesis
    unfolding versions_ok_def
  proof (elim disjE exE conjE)
    fix c assume "?F = [c]" "current_version i c"
    then show ?thesis using cur hist
      by (intro exI[of _ c]) (auto simp: current_version_def)
  next
    fix h c assume "?F = [h, c]" "current_version i c" "product_id h = product_id_of i"
      "\<not> is_current h" "expiration_date h = effective_date c"
    then show ?thesis using cur hist
      by (intro exI[of _ c]) (auto simp: current_version_def)
  qed
qed

lemma unit_index:
  fixes u :: rat
  assumes "0 < n"
  shows "nat \<lfloor>frac u * of_nat n\<rfloor> < n"
proof -
  have "frac u * of_nat n < 1 * of_nat n"
    using assms frac_lt_1[of u] by (intro mult_strict_right_mono) simp_all
  then have "\<lfloor>frac u * of_nat n\<rfloor> < int n"
    by (simp add: floor_less_iff)
  then show ?thesis using assms by linarith
qed

lemma random_choice_total:
  assumes "seq \<noteq> []"
  shows "\<exists>x w'. random_choice seq w = Inr (x, w') \<and> x \<in> set seq"
  using assms unit_index[of "length seq" "py_random w 0"]
  by (simp add: random_choice_def random_random_def py_index_def)

lemma product_versions_total:
  "\<exists>rs key' w'. product_versions change_rate idx key w = Inr (rs, key', w')"
proof -
  obtain cat w1 where c: "random_choice (map fst categories) w = Inr (cat, w1)"
      "cat \<in> set (map fst categories)"
    using random_choice_total[of "map fst categories" w] by (auto simp: categories_def)
  then obtain subs where s: "map_of categories cat = Some subs" "subs \<noteq> []"
    by (auto simp: categories_def)
  obtain sub w2 where s2: "random_choice subs w1 = Inr (sub, w2)"
    using random_choice_total[OF s(2), of w1] by auto
  obtain br w3 where b: "random_choice brands w2 = Inr (br, w3)"
    using random_choice_total[of brands w2] by (auto simp: brands_def)
  show ?thesis
    unfolding product_versions_def
    by (simp add: c(1) s(1) s2 b Let_def split: prod.splits)
qed

lemma product_loop_total:
  "\<exists>rows w'. product_loop change_rate idxs key w = Inr (rows, w')"
proof (induction idxs arbitrary: key w)
  case Nil
  then show ?case by simp
next
  case (Cons idx idxs)
  obtain rs key1 w1 where "product_versions change_rate idx key w = Inr (rs, key1, w1)"
    using product_versions_total by blast
  moreover obtain others w2 where "product_loop change_rate idxs key1 w1 = Inr (others, w2)"
    using Cons.IH by blast
  ultimately show ?case by simp
qed

lemma generate_dim_product_returns:
  "\<exists>rows w'. generate_dim_product lib num_products change_rate seed w = Inr (rows, w')"
  unfolding generate_dim_product_def by (rule product_loop_total)

lemma product_id_of_0: "product_id_of 0 = ''PROD-00001''"
  by (simp add: product_id_of_def zero_pad_def str_nat.simps digit_char_def numeral_eq_Suc)

lemma demo_product_run:
  "generate_dim_product demo_library 1 (1 / 2) 42 demo_world
     = Inr ([demo_historical, demo_current],
            \<lparr>py_random = (\<lambda>n. 0), faker_random = (\<lambda>n. ''Red''), np_random = (\<lambda>n. 0)\<rparr>)"
proof -
  have r: "round2 5 = 5" "round2 (13 / 2) = 13 / 2" "round2 (26 / 5) = 26 / 5" "round2 4 = 4"
    using round2_numeral_div[of 500] round2_numeral_div[of 650] round2_numeral_div[of 520]
      round2_numeral_div[of 400] by simp_all
  have v: "product_versions (1 / 2) 0 1
             \<lparr>py_random = (\<lambda>n. 0), faker_random = (\<lambda>n. ''Red''), np_random = (\<lambda>n. 0)\<rparr>
           = Inr ([demo_historical, demo_current], 3,
                  \<lparr>py_random = (\<lambda>n. 0), faker_random = (\<lambda>n. ''Red''), np_random = (\<lambda>n. 0)\<rparr>)"
    by (simp add: product_versions_def random_choice_def random_random_def random_uniform_def
        faker_next_def py_index_def categories_def brands_def r Let_def product_id_of_0
        demo_historical_def demo_current_def)
  show ?thesis
    by (simp add: generate_dim_product_def DataGenerator_def demo_library_def demo_world_def v)
qed

theorem scd2_invariant_witness:
  "generate_dim_product demo_library 1 (1 / 2) 42 demo_world
     = Inr ([demo_historical, demo_current],
            \<lparr>py_random = (\<lambda>n. 0), faker_random = (\<lambda>n. ''Red''), np_random = (\<lambda>n. 0)\<rparr>) \<and>
   filter (\<lambda>r. product_id r = ''PROD-00001'' \<and> is_current r) [demo_historical, demo_current]
     = [demo_current] \<and>
   expiration_date demo_current = far_future \<and>
   \<not> is_current demo_historical \<and>
   expiration_date demo_historical = effective_date demo_current"
proof -
  have "''PROD-00001'' \<in> product_id ` set [demo_historical, demo_current]"
    by (simp add: demo_current_def)
  from scd2_invariant[OF demo_product_run this]
  obtain c where c: "filter (\<lambda>r. product_id r = ''PROD-00001'' \<and> is_current r)
        [demo_historical, demo_current] = [c]" "expiration_date c = far_future"
      "\<forall>h \<in> set [demo_historical, demo_current].
         product_id h = ''PROD-00001'' \<and> \<not> is_current h \<longrightarrow> expiration_date h = effective_date c"
    by blast
  have h: "product_id demo_historical = ''PROD-00001''" "\<not> is_current demo_historical"
    "is_current demo_current" "product_id demo_current = ''PROD-00001''"
    by (simp_all add: demo_historical_def demo_current_def)
  from c(1) h have "c = demo_current" by simp
  then show ?thesis using c h demo_product_run by simp
qed

section \<open>Properties of the referential integrity validator\<close>













section \<open>Where the code departs from its documentation\<close>

lemma measure_frame_demo:
  "measure_frame [demo_row] =
     [(''quantity'', [VInt 1]), (''unit_price'', [VNum 19]), (''revenue'', [VNum (361 / 20)]),
      (''cost'', [VNum 4]), (''discount_amount'', [VNum (19 / 20)]), (''profit'', [VNum (281 / 20)])]"
  by (simp add: measure_frame_def demo_row_def)

lemma measure_frame_plain:
  "measure_frame [plain_row] =
     [(''quantity'', [VInt 1]), (''unit_price'', [VNum 19]), (''revenue'', [VNum 19]),
      (''cost'', [VNum 4]), (''discount_amount'', [VNum 0]), (''profit'', [VNum 15])]"
  by (simp add: measure_frame_def plain_row_def demo_row_def)

lemmas validator_defs =
  validate_fact_measures_def validate_time_dimension_def column_op_def count_apart_def
  numeric_column_def any_negative_def get_column_def set_column_def Let_def
  str_nat.simps digit_char_def

text \<open>
  C6. The row below is the one \<open>generate_sales_fact\<close> produces in \<open>demo_run\<close>: a
  discounted line item whose revenue is \<open>quantity * unit_price - discount_amount\<close> and
  whose profit is \<open>revenue - cost\<close>. \<open>validate_fact_measures\<close> compares revenue with
  \<open>quantity * unit_price\<close>, the discount left out, and raises.
\<close>

theorem validator_rejects_discounted_row:
  "fst (validate_fact_measures (measure_frame [demo_row]))
     = Inl (ValueError ''Found 1 records with incorrect revenue calculation'') \<and>
   revenue demo_row = of_int (quantity demo_row) * unit_price demo_row - discount_amount demo_row \<and>
   profit demo_row = revenue demo_row - cost demo_row"
proof -
  have "fst (validate_fact_measures (measure_frame [demo_row]))
     = Inl (ValueError ''Found 1 records with incorrect revenue calculation'')"
    unfolding measure_frame_demo by (simp add: validator_defs)
  moreover have "revenue demo_row = of_int (quantity demo_row) * unit_price demo_row - discount_amount demo_row"
    "profit demo_row = revenue demo_row - cost demo_row"
    by (simp_all add: demo_row_def)
  ultimately show ?thesis by simp
qed

text \<open>
  C10. Both validators leave a changed frame behind, also when validation succeeds:
  \<open>validate_time_dimension\<close> adds the column \<open>expected_key\<close>, and
  \<open>validate_fact_measures\<close> adds \<open>expected_revenue\<close> and \<open>expected_profit\<close>.
\<close>

theorem validators_add_columns:
  "validate_time_dimension demo_time_frame
     = (Inr True, demo_time_frame @ [(''expected_key'', [VInt 20230101])]) \<and>
   fst (validate_fact_measures (measure_frame [plain_row])) = Inr True \<and>
   columns (snd (validate_fact_measures (measure_frame [plain_row])))
     = columns (measure_frame [plain_row]) @ [''expected_revenue'', ''expected_profit'']"
proof -
  have "validate_time_dimension demo_time_frame
     = (Inr True, demo_time_frame @ [(''expected_key'', [VInt 20230101])])"
    by (simp add: demo_time_frame_def validator_defs)
  moreover have "validate_fact_measures (measure_frame [plain_row])
     = (Inr True, measure_frame [plain_row] @
          [(''expected_revenue'', [VNum 19]), (''expected_profit'', [VNum 15])])"
    unfolding measure_frame_plain by (simp add: validator_defs)
  ultimately show ?thesis by (simp add: columns_def)
qed

lemma half_rat: "frac (1 / 2 :: rat) = 1 / 2" "\<lfloor>1 / 2 :: rat\<rfloor> = 0"
  by (simp_all add: frac_eq floor_eq_iff)

lemma later_transaction:
  "transaction two_days [\<lparr>geo_row.geo_key = 1\<rparr>] [demo_product]
      [\<lparr>customer_row.customer_key = 1\<rparr>] [\<lparr>payment_row.payment_key = 1\<rparr>] [4 / 5] [4 / 5] 1
      \<lparr>py_random = (\<lambda>n. 0), faker_random = f, np_random = (\<lambda>n. 1 / 2)\<rparr>
   = Inr ([later_row], \<lparr>py_random = (\<lambda>n. 0), faker_random = f, np_random = (\<lambda>n. 1 / 2)\<rparr>)"
  by (simp add: transaction_def sample_one_weighted_def sample_one_def create_recency_weights_def
      accumulate_def np_random_sample_def random_randint_def random_random_def random_choices_def
      bisect_right_first py_index_def two_days_def demo_line_item demo_row_def later_row_def
      half_rat)

lemma earlier_transaction:
  "transaction two_days [\<lparr>geo_row.geo_key = 1\<rparr>] [demo_product]
      [\<lparr>customer_row.customer_key = 1\<rparr>] [\<lparr>payment_row.payment_key = 1\<rparr>] [4 / 5] [4 / 5] 1
      \<lparr>py_random = (\<lambda>n. 0), faker_random = f, np_random = (\<lambda>n. 0)\<rparr>
   = Inr ([demo_row], \<lparr>py_random = (\<lambda>n. 0), faker_random = f, np_random = (\<lambda>n. 0)\<rparr>)"
  by (simp add: transaction_def sample_one_weighted_def sample_one_def create_recency_weights_def
      accumulate_def np_random_sample_def random_randint_def random_random_def random_choices_def
      bisect_right_first py_index_def two_days_def demo_line_item demo_row_def)

text \<open>
  C7. Two runs of \<open>generate_sales_fact\<close> with the same seed and the same arguments, in
  processes whose global NumPy generator stands differently: \<open>DataGenerator(seed)\<close>
  seeds \<^verbatim>\<open>random\<close> and Faker only, \<^verbatim>\<open>DataFrame.sample\<close> draws from NumPy, and the two
  runs pick different days.
\<close>

theorem same_seed_different_facts:
  "map_sum id fst (generate_sales_fact demo_library 1 two_days [\<lparr>geo_row.geo_key = 1\<rparr>] [demo_product]
      [\<lparr>customer_row.customer_key = 1\<rparr>] [\<lparr>payment_row.payment_key = 1\<rparr>] (4 / 5) 42 demo_world)
     = Inr [demo_row] \<and>
   map_sum id fst (generate_sales_fact demo_library 1 two_days [\<lparr>geo_row.geo_key = 1\<rparr>] [demo_product]
      [\<lparr>customer_row.customer_key = 1\<rparr>] [\<lparr>payment_row.payment_key = 1\<rparr>] (4 / 5) 42
      (demo_world\<lparr>np_random := (\<lambda>n. 1 / 2)\<rparr>))
     = Inr [later_row] \<and>
   demo_row \<noteq> later_row"
proof -
  have cur: "is_current demo_product"
    by (simp add: demo_product_def)
  have "map_sum id fst (generate_sales_fact demo_library 1 two_days [\<lparr>geo_row.geo_key = 1\<rparr>] [demo_product]
      [\<lparr>customer_row.customer_key = 1\<rparr>] [\<lparr>payment_row.payment_key = 1\<rparr>] (4 / 5) 42 demo_world)
     = Inr [demo_row]"
    by (simp add: generate_sales_fact_def DataGenerator_def demo_library_def demo_world_def cur
        create_pareto_weights_def earlier_transaction)
  moreover have "map_sum id fst (generate_sales_fact demo_library 1 two_days [\<lparr>geo_row.geo_key = 1\<rparr>] [demo_product]
      [\<lparr>customer_row.customer_key = 1\<rparr>] [\<lparr>payment_row.payment_key = 1\<rparr>] (4 / 5) 42
      (demo_world\<lparr>np_random := (\<lambda>n. 1 / 2)\<rparr>))
     = Inr [later_row]"
    by (simp add: generate_sales_fact_def DataGenerator_def demo_library_def demo_world_def cur
        create_pareto_weights_def later_transaction)
  moreover have "demo_row \<noteq> later_row"
    by (simp add: later_row_def demo_row_def)
  ultimately show ?thesis by simp
qed

end
